theory Spec2Isabelle
  imports Main "HOL-Library.List_Lexorder" "HOL-Library.Char_ord" "HOL-Library.Multiset"
    "HOL-Library.Log_Nat"
begin

section \<open>Lost-and-found service: request handlers of server.js over the tables of db.js\<close>

text \<open>
  The development embeds the route handlers of \<^verbatim>\<open>server.js\<close> (Express) and the schema
  of \<^verbatim>\<open>db.js\<close> (SQLite).  A JavaScript string is a \<^typ>\<open>string\<close>; a \<^typ>\<open>char\<close> stands for
  one code unit in the Latin-1 range, so text outside that range is not covered.  A request
  field that may be \<^verbatim>\<open>undefined\<close> is a \<^typ>\<open>string option\<close>.  TEXT columns are compared
  as SQLite's BINARY collation does, code unit by code unit, which is the lexicographic
  order on \<^typ>\<open>string\<close>.
\<close>

subsection \<open>Strings and numbers: trim, sanitizeString, parseInt, LIKE\<close>

text \<open>The white space and line terminators that \<^verbatim>\<open>String.prototype.trim\<close> and
  \<^verbatim>\<open>parseInt\<close> strip, as far as they lie in the Latin-1 range: TAB, LF, VT, FF, CR,
  SPACE and NBSP.\<close>

definition is_ws :: "char \<Rightarrow> bool" where
  "is_ws c = (of_char c \<in> {9, 10, 11, 12, 13, 32, 160 :: nat})"

definition trim :: "string \<Rightarrow> string" where
  "trim s = rev (dropWhile is_ws (rev (dropWhile is_ws s)))"

text \<open>
  \<^verbatim>\<open>function sanitizeString(s, max = 500) { if (!s) return ''; return String(s).slice(0, max).trim(); }\<close>
  The cap is applied first and the trimming second.  \<^verbatim>\<open>!s\<close> holds for \<^verbatim>\<open>undefined\<close>
  and for the empty string.
\<close>

definition sanitizeString :: "string option \<Rightarrow> nat \<Rightarrow> string" where
  "sanitizeString s mx =
     (case s of
        None \<Rightarrow> []
      | Some v \<Rightarrow> if v = [] then [] else trim (take mx v))"

text \<open>A destructuring default \<^verbatim>\<open>{ x = d } = req.query\<close>: the default applies only when
  the field is \<^verbatim>\<open>undefined\<close>, not when it is the empty string.\<close>

definition dflt :: "string \<Rightarrow> string option \<Rightarrow> string" where
  "dflt d x = (case x of None \<Rightarrow> d | Some v \<Rightarrow> v)"

text \<open>
  A JavaScript number as the handlers meet it: \<^verbatim>\<open>NaN\<close>, the two infinities, or a
  double whose value is an integer.  Every number of the handlers comes from
  \<^verbatim>\<open>parseInt\<close>, a constant, a subtraction of 1 or a product, so no fraction occurs.
\<close>

datatype jsnum = NaN | NegInfinity | Num int | PosInfinity

text \<open>
  The double nearest to an integer, ties going to the even significand.  Below \<open>2^53\<close>
  in magnitude every integer is a double.  Above, a double has 53 significant bits: with
  \<open>e\<close> the number of bits beyond 53, the low \<open>e\<close> bits are rounded away.  A result of
  \<open>2^1024\<close> or more is an infinity.
\<close>

definition to_number :: "int \<Rightarrow> jsnum" where
  "to_number v =
     (let a = abs v
      in if a < 2 ^ 53 then Num v
         else (let e = nat (bitlen a - 53);
                   q = a div 2 ^ e;
                   r = a mod 2 ^ e;
                   h = 2 ^ (e - 1);
                   m = (if h < r \<or> (r = h \<and> odd q) then q + 1 else q) * 2 ^ e
               in if 2 ^ 1024 \<le> m then (if v < 0 then NegInfinity else PosInfinity)
                  else Num (if v < 0 then - m else m)))"

text \<open>
  \<^verbatim>\<open>parseInt(s)\<close> with no radix: leading white space is skipped, one sign is read, a
  prefix \<^verbatim>\<open>0x\<close> or \<^verbatim>\<open>0X\<close> selects radix 16, and the longest run of digits is read.
  With no digit the result is \<^verbatim>\<open>NaN\<close>; otherwise it is the double nearest to the
  integer read.  (For more than 20 decimal digits the language lets an implementation zero
  the digits after the 20th first; the nearest double is what is modelled.)
\<close>

definition digit_of :: "nat \<Rightarrow> char \<Rightarrow> nat option" where
  "digit_of radix c =
     (let n = (of_char c :: nat);
          v = (if 48 \<le> n \<and> n \<le> 57 then Some (n - 48)
               else if 97 \<le> n \<and> n \<le> 122 then Some (n - 87)
               else if 65 \<le> n \<and> n \<le> 90 then Some (n - 55)
               else None)
      in case v of None \<Rightarrow> None | Some d \<Rightarrow> if d < radix then Some d else None)"

fun digits_prefix :: "nat \<Rightarrow> string \<Rightarrow> nat list" where
  "digits_prefix radix [] = []"
| "digits_prefix radix (c # cs) =
     (case digit_of radix c of None \<Rightarrow> [] | Some d \<Rightarrow> d # digits_prefix radix cs)"

definition parseInt :: "string \<Rightarrow> jsnum" where
  "parseInt s =
     (let s1 = dropWhile is_ws s;
          neg = (case s1 of [] \<Rightarrow> False | c # _ \<Rightarrow> c = CHR ''-'');
          s2 = (case s1 of [] \<Rightarrow> [] | c # t \<Rightarrow> if c = CHR ''+'' \<or> c = CHR ''-'' then t else s1);
          hex = (take 2 s2 = ''0x'' \<or> take 2 s2 = ''0X'');
          radix = (if hex then 16 else 10);
          s3 = (if hex then drop 2 s2 else s2);
          ds = digits_prefix radix s3
      in if ds = [] then NaN
         else to_number ((if neg then - 1 else 1) * int (foldl (\<lambda>a d. a * radix + d) 0 ds)))"

text \<open>\<^verbatim>\<open>Math.max(a, x)\<close> and \<^verbatim>\<open>Math.min(a, x)\<close> for an integer constant \<open>a\<close>: both
  return \<^verbatim>\<open>NaN\<close> when \<open>x\<close> is.\<close>

definition Math_max :: "int \<Rightarrow> jsnum \<Rightarrow> jsnum" where
  "Math_max a x =
     (case x of
        NaN \<Rightarrow> NaN
      | NegInfinity \<Rightarrow> Num a
      | Num v \<Rightarrow> Num (max a v)
      | PosInfinity \<Rightarrow> PosInfinity)"

definition Math_min :: "int \<Rightarrow> jsnum \<Rightarrow> jsnum" where
  "Math_min a x =
     (case x of
        NaN \<Rightarrow> NaN
      | NegInfinity \<Rightarrow> NegInfinity
      | Num v \<Rightarrow> Num (min a v)
      | PosInfinity \<Rightarrow> Num a)"

text \<open>\<^verbatim>\<open>x - b\<close> for an integer constant \<open>b\<close>, and \<^verbatim>\<open>x * y\<close>: the exact result,
  rounded to a double.  An infinity times zero is \<^verbatim>\<open>NaN\<close>.\<close>

definition js_minus :: "jsnum \<Rightarrow> int \<Rightarrow> jsnum" where
  "js_minus x b = (case x of Num v \<Rightarrow> to_number (v - b) | y \<Rightarrow> y)"

definition is_negative :: "jsnum \<Rightarrow> bool" where
  "is_negative x = (case x of NegInfinity \<Rightarrow> True | Num v \<Rightarrow> v < 0 | _ \<Rightarrow> False)"

definition js_times :: "jsnum \<Rightarrow> jsnum \<Rightarrow> jsnum" where
  "js_times x y =
     (case (x, y) of
        (Num a, Num b) \<Rightarrow> to_number (a * b)
      | (NaN, _) \<Rightarrow> NaN
      | (_, NaN) \<Rightarrow> NaN
      | _ \<Rightarrow> if x = Num 0 \<or> y = Num 0 then NaN
             else if is_negative x \<noteq> is_negative y then NegInfinity
             else PosInfinity)"

text \<open>
  A number bound to \<^verbatim>\<open>LIMIT ?\<close> or \<^verbatim>\<open>OFFSET ?\<close>.  SQLite takes it when it is an
  integer, or a double that converts to a 64-bit integer without loss and is neither the
  smallest nor the largest of them; \<^verbatim>\<open>NaN\<close> arrives as NULL.  Anything else is refused
  with a datatype mismatch.
\<close>

definition sql_integer :: "jsnum \<Rightarrow> int option" where
  "sql_integer x =
     (case x of
        Num v \<Rightarrow> if - (2 ^ 63) < v \<and> v < 2 ^ 63 - 1 then Some v else None
      | _ \<Rightarrow> None)"

text \<open>
  SQLite's \<^verbatim>\<open>LIKE\<close> with no ESCAPE clause: \<^verbatim>\<open>%\<close> matches any run of characters,
  \<^verbatim>\<open>_\<close> matches one character, and any other character matches itself, upper and lower
  case ASCII letters being equal.
\<close>

definition ascii_lower :: "char \<Rightarrow> char" where
  "ascii_lower c =
     (let n = (of_char c :: nat) in if 65 \<le> n \<and> n \<le> 90 then char_of (n + 32) else c)"

fun sql_like :: "string \<Rightarrow> string \<Rightarrow> bool" where
  "sql_like [] [] = True"
| "sql_like [] (c # s) = False"
| "sql_like (p # ps) [] = (p = CHR ''%'' \<and> sql_like ps [])"
| "sql_like (p # ps) (c # s) =
     (if p = CHR ''%'' then sql_like ps (c # s) \<or> sql_like (p # ps) s
      else (p = CHR ''_'' \<or> ascii_lower p = ascii_lower c) \<and> sql_like ps s)"

text \<open>The pattern \<^verbatim>\<open>`%${q}%`\<close> of the handlers.\<close>

definition contains_like :: "string \<Rightarrow> string \<Rightarrow> bool" where
  "contains_like needle hay = sql_like (''%'' @ needle @ ''%'') hay"

subsection \<open>Tables, upload directory and sessions\<close>

text \<open>Table \<^verbatim>\<open>items\<close> of db.js.  \<^verbatim>\<open>id\<close> is \<open>item_id\<close> here; \<^verbatim>\<open>photo_filename\<close>
  is nullable; \<^verbatim>\<open>created_at\<close> is the text \<^verbatim>\<open>CURRENT_TIMESTAMP\<close> gave at insertion.\<close>

record item =
  item_id :: int
  title :: string
  description :: string
  category :: string
  location_found :: string
  date_found :: string
  photo_filename :: "string option"
  status :: string
  reporter_name :: string
  reporter_email :: string
  created_at :: string

text \<open>Table \<^verbatim>\<open>claims\<close> of db.js; the columns \<^verbatim>\<open>id\<close>, \<^verbatim>\<open>item_id\<close>, \<^verbatim>\<open>status\<close> and
  \<^verbatim>\<open>created_at\<close> carry the prefix \<open>claim_\<close>.\<close>

record claim =
  claim_id :: int
  claim_item_id :: int
  claimant_name :: string
  claimant_email :: string
  student_id :: string
  message :: string
  proof_filename :: "string option"
  claim_status :: string
  claim_created_at :: string

text \<open>The writes a handler issues, in the order it issues them.  \<^verbatim>\<open>fs.unlink\<close> is called
  with a callback that ignores its error; the trace records the call.\<close>

datatype effect =
    FsUnlink string
  | DbInsertItem int
  | DbUpdateItem int
  | DbDeleteItem int
  | DbInsertClaim int
  | DbUpdateClaim int

text \<open>
  The state the handlers work on: both tables in rowid order, the AUTOINCREMENT counters
  (the largest rowid ever given out), the names of the files in \<^verbatim>\<open>UPLOAD_DIR\<close>, and the
  trace of writes.
\<close>

record world =
  items :: "item list"
  claims :: "claim list"
  item_seq :: int
  claim_seq :: int
  uploads :: "string set"
  trace :: "effect list"

datatype error =
    ValidationError
  | Unauthorized
  | Forbidden
  | NotFound
  | InvalidAction
  | InvalidStatus
  | InternalError

text \<open>\<^verbatim>\<open>req.session.user\<close>, when present.\<close>

record session_user =
  user_id :: int
  username :: string
  role :: string

text \<open>\<^verbatim>\<open>function isAdmin(req) { return req.session && req.session.user && req.session.user.role === 'admin'; }\<close>\<close>

definition isAdmin :: "session_user option \<Rightarrow> bool" where
  "isAdmin u = (case u of None \<Rightarrow> False | Some usr \<Rightarrow> role usr = ''admin'')"

text \<open>\<^verbatim>\<open>fs.unlink(path, () => {})\<close>: the file is removed when it is there; when it is not,
  the error goes to the empty callback and nothing else happens.  The removal is taken to
  happen at the call; the handler does not wait for it.\<close>

definition fs_unlink :: "string \<Rightarrow> world \<Rightarrow> world" where
  "fs_unlink f w = w\<lparr>uploads := uploads w - {f}, trace := trace w @ [FsUnlink f]\<rparr>"

text \<open>\<^verbatim>\<open>if (req.file) fs.unlink(req.file.path, () => {})\<close>\<close>

definition unlink_upload :: "string option \<Rightarrow> world \<Rightarrow> world" where
  "unlink_upload file w = (case file of None \<Rightarrow> w | Some f \<Rightarrow> fs_unlink f w)"

text \<open>\<^verbatim>\<open>upload.single(...)\<close> has run before the handler: an accepted file is in
  \<^verbatim>\<open>UPLOAD_DIR\<close> under its generated name (a UUID and the lower-cased extension), which is
  also what \<^verbatim>\<open>path.basename(req.file.filename)\<close> gives.\<close>

definition upload_single :: "string option \<Rightarrow> world \<Rightarrow> world" where
  "upload_single file w = (case file of None \<Rightarrow> w | Some f \<Rightarrow> w\<lparr>uploads := insert f (uploads w)\<rparr>)"

text \<open>\<^verbatim>\<open>get(`SELECT * FROM items WHERE id = ?`, [id])\<close>; a \<^verbatim>\<open>NaN\<close> id is bound as NULL
  and matches no row, and no rowid equals an infinity.\<close>

definition select_item :: "jsnum \<Rightarrow> world \<Rightarrow> item option" where
  "select_item i w = (case i of Num n \<Rightarrow> find (\<lambda>r. item_id r = n) (items w) | _ \<Rightarrow> None)"

definition select_claim :: "jsnum \<Rightarrow> world \<Rightarrow> claim option" where
  "select_claim i w = (case i of Num n \<Rightarrow> find (\<lambda>r. claim_id r = n) (claims w) | _ \<Rightarrow> None)"

text \<open>The AUTOINCREMENT invariant of both tables: every rowid in use is at most the
  counter, and rowids are unique.\<close>

definition wf_world :: "world \<Rightarrow> bool" where
  "wf_world w =
     ((\<forall>r \<in> set (items w). item_id r \<le> item_seq w) \<and> distinct (map item_id (items w)) \<and>
      (\<forall>c \<in> set (claims w). claim_id c \<le> claim_seq w) \<and> distinct (map claim_id (claims w)))"

definition empty_world :: world where
  "empty_world = \<lparr>items = [], claims = [], item_seq = 0, claim_seq = 0, uploads = {}, trace = []\<rparr>"

subsection \<open>POST /api/items\<close>

record item_body =
  body_title :: "string option"
  body_description :: "string option"
  body_category :: "string option"
  body_location_found :: "string option"
  body_date_found :: "string option"
  body_reporter_name :: "string option"
  body_reporter_email :: "string option"

text \<open>The INSERT of the handler: the next rowid, status \<^verbatim>\<open>'pending'\<close> as the statement
  has it, and \<open>now\<close>, the value \<^verbatim>\<open>CURRENT_TIMESTAMP\<close> has at that moment.\<close>

definition insert_item ::
  "string \<Rightarrow> string \<Rightarrow> string \<Rightarrow> string \<Rightarrow> string \<Rightarrow> string option \<Rightarrow> string \<Rightarrow> string \<Rightarrow>
   string \<Rightarrow> world \<Rightarrow> int \<times> world" where
  "insert_item t d c l df photo rn re now w =
     (let lastID = item_seq w + 1;
          row = \<lparr>item_id = lastID, title = t, description = d, category = c, location_found = l,
                 date_found = df, photo_filename = photo, status = ''pending'',
                 reporter_name = rn, reporter_email = re, created_at = now\<rparr>
      in (lastID, w\<lparr>items := items w @ [row], item_seq := lastID,
                     trace := trace w @ [DbInsertItem lastID]\<rparr>))"

text \<open>
  \<^verbatim>\<open>app.post('/api/items', upload.single('photo'), ...)\<close>.  The answer of a success is the
  pair of \<^verbatim>\<open>result.lastID\<close> and the status \<^verbatim>\<open>'pending'\<close> of the 201 body.
\<close>

definition post_item ::
  "item_body \<Rightarrow> string option \<Rightarrow> string \<Rightarrow> world \<Rightarrow> (error + int \<times> string) \<times> world" where
  "post_item body file now w0 =
     (let w = upload_single file w0;
          t = sanitizeString (body_title body) 120;
          d = sanitizeString (body_description body) 2000;
          c = sanitizeString (body_category body) 60;
          l = sanitizeString (body_location_found body) 120;
          df = sanitizeString (body_date_found body) 10;
          rn = sanitizeString (body_reporter_name body) 80;
          re = sanitizeString (body_reporter_email body) 120
      in if t = [] \<or> d = [] \<or> c = [] \<or> l = [] \<or> df = [] \<or> rn = [] \<or> re = []
         then (Inl ValidationError, unlink_upload file w)
         else (let (lastID, w') = insert_item t d c l df file rn re now w
               in (Inr (lastID, ''pending''), w')))"

subsection \<open>GET /api/items\<close>

record list_query =
  query_q :: "string option"
  query_category :: "string option"
  query_location :: "string option"
  query_status :: "string option"
  query_date_from :: "string option"
  query_date_to :: "string option"
  query_sort :: "string option"
  query_page :: "string option"
  query_limit :: "string option"

text \<open>The columns the listing selects: the reporter's name and address are left out.\<close>

record listing =
  l_id :: int
  l_title :: string
  l_description :: string
  l_category :: string
  l_location_found :: string
  l_date_found :: string
  l_photo_filename :: "string option"
  l_status :: string
  l_created_at :: string

definition listing_of :: "item \<Rightarrow> listing" where
  "listing_of r =
     \<lparr>l_id = item_id r, l_title = title r, l_description = description r,
      l_category = category r, l_location_found = location_found r,
      l_date_found = date_found r, l_photo_filename = photo_filename r,
      l_status = status r, l_created_at = created_at r\<rparr>"

record list_response =
  resp_page :: int
  resp_limit :: int
  resp_total :: nat
  resp_items :: "listing list"

text \<open>\<^verbatim>\<open>const pageNum = Math.max(1, parseInt(page))\<close> with the default \<^verbatim>\<open>page = 1\<close>, and
  \<^verbatim>\<open>const perPage = Math.max(1, Math.min(50, parseInt(limit)))\<close> with \<^verbatim>\<open>limit = 20\<close>;
  \<^verbatim>\<open>parseInt\<close> turns the numeric defaults into the strings \<^verbatim>\<open>'1'\<close> and \<^verbatim>\<open>'20'\<close>
  first.\<close>

definition pageNum :: "string option \<Rightarrow> jsnum" where
  "pageNum page = Math_max 1 (parseInt (dflt ''1'' page))"

definition perPage :: "string option \<Rightarrow> jsnum" where
  "perPage limit = Math_max 1 (Math_min 50 (parseInt (dflt ''20'' limit)))"

text \<open>The WHERE clause the handler assembles: one conjunct for each parameter that is
  truthy, that is, a non-empty string, after its default has been applied.  Only
  \<^verbatim>\<open>status\<close> has a non-empty default, \<^verbatim>\<open>'approved'\<close>.\<close>

definition where_clause :: "list_query \<Rightarrow> item \<Rightarrow> bool" where
  "where_clause qr r =
     (let q = dflt [] (query_q qr);
          cat = dflt [] (query_category qr);
          loc = dflt [] (query_location qr);
          st = dflt ''approved'' (query_status qr);
          date_from = dflt [] (query_date_from qr);
          date_to = dflt [] (query_date_to qr)
      in (st \<noteq> [] \<longrightarrow> status r = st) \<and>
         (q \<noteq> [] \<longrightarrow> contains_like q (title r) \<or> contains_like q (description r)) \<and>
         (cat \<noteq> [] \<longrightarrow> category r = cat) \<and>
         (loc \<noteq> [] \<longrightarrow> contains_like loc (location_found r)) \<and>
         (date_from \<noteq> [] \<longrightarrow> date_from \<le> date_found r) \<and>
         (date_to \<noteq> [] \<longrightarrow> date_found r \<le> date_to))"

text \<open>
  \<^verbatim>\<open>sort === 'oldest' ? 'ORDER BY created_at ASC' : 'ORDER BY created_at DESC'\<close>.
  SQL leaves the order of rows with equal \<^verbatim>\<open>created_at\<close> to the engine; the model keeps
  them in rowid order in both directions, the same for every page.
\<close>

definition order_by :: "string \<Rightarrow> item list \<Rightarrow> item list" where
  "order_by srt rows =
     (if srt = ''oldest'' then sort_key created_at rows
      else rev (sort_key created_at (rev rows)))"

definition matching_rows :: "list_query \<Rightarrow> world \<Rightarrow> item list" where
  "matching_rows qr w =
     order_by (dflt ''newest'' (query_sort qr)) (filter (where_clause qr) (items w))"

text \<open>
  \<^verbatim>\<open>app.get('/api/items', ...)\<close>.  The handler looks at no session.
  \<^verbatim>\<open>const offset = (pageNum - 1) * perPage\<close> is a product of doubles.  When
  \<^verbatim>\<open>LIMIT ? OFFSET ?\<close> is given a value that SQLite does not take as an integer
  (\<^verbatim>\<open>NaN\<close>, an infinity, or a double outside the 64-bit range), the statement is
  rejected and the \<^verbatim>\<open>catch\<close> block answers 500.
\<close>

definition list_items :: "list_query \<Rightarrow> world \<Rightarrow> error + list_response" where
  "list_items qr w =
     (let pn = pageNum (query_page qr);
          pp = perPage (query_limit qr);
          total = length (filter (where_clause qr) (items w));
          offset = js_times (js_minus pn 1) pp
      in case (pn, pp, sql_integer pp, sql_integer offset) of
           (Num p, Num l, Some bound_limit, Some bound_offset) \<Rightarrow>
             Inr \<lparr>resp_page = p, resp_limit = l, resp_total = total,
                  resp_items = map listing_of
                    (take (nat bound_limit) (drop (nat bound_offset) (matching_rows qr w)))\<rparr>
         | _ \<Rightarrow> Inl InternalError)"

subsection \<open>GET /api/items/:id\<close>

definition get_item :: "string \<Rightarrow> session_user option \<Rightarrow> world \<Rightarrow> error + item" where
  "get_item idp sess w =
     (case select_item (parseInt idp) w of
        None \<Rightarrow> Inl NotFound
      | Some r \<Rightarrow> if status r \<noteq> ''approved'' \<and> \<not> isAdmin sess then Inl Forbidden else Inr r)"

subsection \<open>POST /api/items/:id/claim\<close>

record claim_body =
  body_claimant_name :: "string option"
  body_claimant_email :: "string option"
  body_student_id :: "string option"
  body_message :: "string option"

definition insert_claim ::
  "int \<Rightarrow> string \<Rightarrow> string \<Rightarrow> string \<Rightarrow> string \<Rightarrow> string option \<Rightarrow> string \<Rightarrow> world \<Rightarrow> int \<times> world" where
  "insert_claim i cn ce sid msg proof now w =
     (let lastID = claim_seq w + 1;
          row = \<lparr>claim_id = lastID, claim_item_id = i, claimant_name = cn, claimant_email = ce,
                 student_id = sid, message = msg, proof_filename = proof,
                 claim_status = ''new'', claim_created_at = now\<rparr>
      in (lastID, w\<lparr>claims := claims w @ [row], claim_seq := lastID,
                     trace := trace w @ [DbInsertClaim lastID]\<rparr>))"

definition post_claim ::
  "string \<Rightarrow> claim_body \<Rightarrow> string option \<Rightarrow> string \<Rightarrow> world \<Rightarrow> (error + int \<times> string) \<times> world" where
  "post_claim idp body file now w0 =
     (let w = upload_single file w0;
          i = parseInt idp
      in case select_item i w of
           None \<Rightarrow> (Inl NotFound, unlink_upload file w)
         | Some r \<Rightarrow>
             if status r = ''archived'' then (Inl NotFound, unlink_upload file w)
             else (let cn = sanitizeString (body_claimant_name body) 80;
                       ce = sanitizeString (body_claimant_email body) 120;
                       sid = sanitizeString (body_student_id body) 40;
                       msg = sanitizeString (body_message body) 1500
                   in if cn = [] \<or> ce = [] \<or> msg = []
                      then (Inl ValidationError, unlink_upload file w)
                      else (let (lastID, w') = insert_claim (item_id r) cn ce sid msg file now w
                            in (Inr (lastID, ''new''), w'))))"

subsection \<open>PATCH and DELETE /api/admin/items/:id\<close>

text \<open>\<^verbatim>\<open>function requireAdmin(req, res, next)\<close>: 401 unless the session is an admin's.\<close>

definition requireAdmin ::
  "session_user option \<Rightarrow> (world \<Rightarrow> (error + 'a) \<times> world) \<Rightarrow> world \<Rightarrow> (error + 'a) \<times> world" where
  "requireAdmin sess handler w = (if \<not> isAdmin sess then (Inl Unauthorized, w) else handler w)"

definition update_item :: "int \<Rightarrow> (item \<Rightarrow> item) \<Rightarrow> world \<Rightarrow> world" where
  "update_item i f w =
     w\<lparr>items := map (\<lambda>r. if item_id r = i then f r else r) (items w),
       trace := trace w @ [DbUpdateItem i]\<rparr>"

text \<open>The JSON body of the PATCH: \<^verbatim>\<open>action\<close> and the five fields the edit reads.\<close>

record patch_body =
  patch_action :: "string option"
  patch_title :: "string option"
  patch_description :: "string option"
  patch_category :: "string option"
  patch_location_found :: "string option"
  patch_date_found :: "string option"

definition edit_row :: "patch_body \<Rightarrow> item \<Rightarrow> item" where
  "edit_row body r =
     r\<lparr>title := sanitizeString (patch_title body) 120,
       description := sanitizeString (patch_description body) 2000,
       category := sanitizeString (patch_category body) 60,
       location_found := sanitizeString (patch_location_found body) 120,
       date_found := sanitizeString (patch_date_found body) 10\<rparr>"

text \<open>The handler behind the gate.  It answers with the row as it is read back.\<close>

definition patch_item_handler :: "string \<Rightarrow> patch_body \<Rightarrow> world \<Rightarrow> (error + item option) \<times> world" where
  "patch_item_handler idp body w =
     (let i = parseInt idp
      in case select_item i w of
           None \<Rightarrow> (Inl NotFound, w)
         | Some r \<Rightarrow>
             (let n = item_id r; action = patch_action body
              in if action = Some ''approve''
                 then (let w' = update_item n (\<lambda>x. x\<lparr>status := ''approved''\<rparr>) w
                       in (Inr (select_item i w'), w'))
                 else if action = Some ''archive''
                 then (let w' = update_item n (\<lambda>x. x\<lparr>status := ''archived''\<rparr>) w
                       in (Inr (select_item i w'), w'))
                 else if action = Some ''mark_claimed''
                 then (let w' = update_item n (\<lambda>x. x\<lparr>status := ''claimed''\<rparr>) w
                       in (Inr (select_item i w'), w'))
                 else if action = Some ''edit''
                 then (let w' = update_item n (edit_row body) w
                       in (Inr (select_item i w'), w'))
                 else (Inl InvalidAction, w)))"

definition patch_item ::
  "session_user option \<Rightarrow> string \<Rightarrow> patch_body \<Rightarrow> world \<Rightarrow> (error + item option) \<times> world" where
  "patch_item sess idp body = requireAdmin sess (patch_item_handler idp body)"

text \<open>\<^verbatim>\<open>if (c.proof_filename)\<close>, \<^verbatim>\<open>if (item.photo_filename)\<close>: NULL and the empty name are
  skipped.\<close>

definition unlink_named :: "string option \<Rightarrow> world \<Rightarrow> world" where
  "unlink_named name w =
     (case name of None \<Rightarrow> w | Some f \<Rightarrow> if f = [] then w else fs_unlink f w)"

text \<open>\<^verbatim>\<open>for (const c of claims) { if (c.proof_filename) fs.unlink(...) }\<close>\<close>

fun unlink_proofs :: "claim list \<Rightarrow> world \<Rightarrow> world" where
  "unlink_proofs [] w = w"
| "unlink_proofs (c # cs) w = unlink_proofs cs (unlink_named (proof_filename c) w)"

text \<open>\<^verbatim>\<open>DELETE FROM items WHERE id = ?\<close> with \<^verbatim>\<open>PRAGMA foreign_keys = ON\<close> and
  \<^verbatim>\<open>FOREIGN KEY (item_id) REFERENCES items(id) ON DELETE CASCADE\<close>: the claims of the
  item go with it.\<close>

definition delete_item_row :: "int \<Rightarrow> world \<Rightarrow> world" where
  "delete_item_row i w =
     w\<lparr>items := filter (\<lambda>r. item_id r \<noteq> i) (items w),
       claims := filter (\<lambda>c. claim_item_id c \<noteq> i) (claims w),
       trace := trace w @ [DbDeleteItem i]\<rparr>"

definition delete_item_handler :: "string \<Rightarrow> world \<Rightarrow> (error + unit) \<times> world" where
  "delete_item_handler idp w =
     (case select_item (parseInt idp) w of
        None \<Rightarrow> (Inl NotFound, w)
      | Some r \<Rightarrow>
          (let cs = filter (\<lambda>c. claim_item_id c = item_id r) (claims w);
               w1 = unlink_proofs cs w;
               w2 = unlink_named (photo_filename r) w1
           in (Inr (), delete_item_row (item_id r) w2)))"

definition delete_item :: "session_user option \<Rightarrow> string \<Rightarrow> world \<Rightarrow> (error + unit) \<times> world" where
  "delete_item sess idp = requireAdmin sess (delete_item_handler idp)"

subsection \<open>PATCH /api/admin/claims/:id\<close>

definition valid_claim_status :: "string list" where
  "valid_claim_status = [''new'', ''in_review'', ''approved'', ''rejected'', ''resolved'']"

text \<open>\<^verbatim>\<open>UPDATE claims SET status = ? WHERE id = ?\<close>; with no such row nothing changes
  and no error is raised.\<close>

definition update_claim_status :: "jsnum \<Rightarrow> string \<Rightarrow> world \<Rightarrow> world" where
  "update_claim_status i st w =
     (case i of
        Num n \<Rightarrow>
          w\<lparr>claims := map (\<lambda>c. if claim_id c = n then c\<lparr>claim_status := st\<rparr> else c) (claims w),
            trace := trace w @ [DbUpdateClaim n]\<rparr>
      | _ \<Rightarrow> w)"

text \<open>The handler behind the gate: \<^verbatim>\<open>res.json({ claim })\<close> with whatever the SELECT
  after the UPDATE gave, \<^verbatim>\<open>undefined\<close> included.\<close>

definition patch_claim_handler :: "string \<Rightarrow> string option \<Rightarrow> world \<Rightarrow> (error + claim option) \<times> world" where
  "patch_claim_handler idp st w =
     (let i = parseInt idp
      in case st of
           None \<Rightarrow> (Inl InvalidStatus, w)
         | Some s \<Rightarrow>
             if s \<notin> set valid_claim_status then (Inl InvalidStatus, w)
             else (let w' = update_claim_status i s w in (Inr (select_claim i w'), w')))"

definition patch_claim ::
  "session_user option \<Rightarrow> string \<Rightarrow> string option \<Rightarrow> world \<Rightarrow> (error + claim option) \<times> world" where
  "patch_claim sess idp st = requireAdmin sess (patch_claim_handler idp st)"

subsection \<open>Vocabulary of the properties\<close>

text \<open>The seven required fields of a submission as the handler reads them, capped and
  trimmed.\<close>

definition required_item_fields :: "item_body \<Rightarrow> string list" where
  "required_item_fields body =
     [sanitizeString (body_title body) 120, sanitizeString (body_description body) 2000,
      sanitizeString (body_category body) 60, sanitizeString (body_location_found body) 120,
      sanitizeString (body_date_found body) 10, sanitizeString (body_reporter_name body) 80,
      sanitizeString (body_reporter_email body) 120]"

text \<open>The three required fields of a claim, capped and trimmed.\<close>

definition required_claim_fields :: "claim_body \<Rightarrow> string list" where
  "required_claim_fields body =
     [sanitizeString (body_claimant_name body) 80, sanitizeString (body_claimant_email body) 120,
      sanitizeString (body_message body) 1500]"

text \<open>The \<^verbatim>\<open>items\<close> array of an answer; an error answer has none.\<close>

definition page_items :: "error + list_response \<Rightarrow> listing list" where
  "page_items res = (case res of Inl _ \<Rightarrow> [] | Inr resp \<Rightarrow> resp_items resp)"

text \<open>The file names among nullable columns that pass \<^verbatim>\<open>if (name)\<close>.\<close>

definition named_files :: "string option list \<Rightarrow> string list" where
  "named_files names = concat (map (\<lambda>n. case n of None \<Rightarrow> [] | Some f \<Rightarrow> if f = [] then [] else [f]) names)"

text \<open>The claims of an item, in rowid order.\<close>

definition claims_of :: "int \<Rightarrow> world \<Rightarrow> claim list" where
  "claims_of i w = filter (\<lambda>c. claim_item_id c = i) (claims w)"

subsection \<open>Sample data\<close>

definition backpack_body :: item_body where
  "backpack_body =
     \<lparr>body_title = Some ''Blue Backpack'', body_description = Some ''Left by the door'',
      body_category = Some ''Bags'', body_location_found = Some ''Library'',
      body_date_found = Some ''2025-01-10'', body_reporter_name = Some ''A'',
      body_reporter_email = Some ''a@x.com''\<rparr>"

definition blank_body :: item_body where
  "blank_body = backpack_body\<lparr>body_title := Some ''   ''\<rparr>"

definition plain_query :: list_query where
  "plain_query =
     \<lparr>query_q = None, query_category = None, query_location = None, query_status = None,
      query_date_from = None, query_date_to = None, query_sort = None, query_page = None,
      query_limit = None\<rparr>"

definition sample_item :: "int \<Rightarrow> string \<Rightarrow> string \<Rightarrow> item" where
  "sample_item i st ts =
     \<lparr>item_id = i, title = ''Blue Backpack'', description = ''Left by the door'',
      category = ''Bags'', location_found = ''Library'', date_found = ''2025-01-10'',
      photo_filename = Some ''p.png'', status = st, reporter_name = ''A'',
      reporter_email = ''a@x.com'', created_at = ts\<rparr>"

definition sample_claim :: "int \<Rightarrow> int \<Rightarrow> string option \<Rightarrow> claim" where
  "sample_claim i it proof =
     \<lparr>claim_id = i, claim_item_id = it, claimant_name = ''B'', claimant_email = ''b@x.com'',
      student_id = [], message = ''It is mine'', proof_filename = proof,
      claim_status = ''new'', claim_created_at = ''2025-01-11 08:00:00''\<rparr>"

definition admin_session :: "session_user option" where
  "admin_session = Some \<lparr>user_id = 1, username = ''admin'', role = ''admin''\<rparr>"

text \<open>Two items, the first pending and the second approved.\<close>

definition two_items :: world where
  "two_items =
     empty_world\<lparr>items := [sample_item 1 ''pending'' ''2025-01-10 09:00:00'',
                           sample_item 2 ''approved'' ''2025-01-10 09:00:05''],
                 item_seq := 2\<rparr>"

text \<open>Three approved items, reported one after the other.\<close>

definition three_approved :: world where
  "three_approved =
     empty_world\<lparr>items := [sample_item 1 ''approved'' ''2025-01-10 09:00:00'',
                           sample_item 2 ''approved'' ''2025-01-10 09:00:05'',
                           sample_item 3 ''approved'' ''2025-01-10 09:00:09''],
                 item_seq := 3\<rparr>"

definition page_param :: "nat \<Rightarrow> string option" where
  "page_param k = (if k = 0 then Some ''1'' else Some ''2'')"

text \<open>One archived item.\<close>

definition archived_world :: world where
  "archived_world =
     empty_world\<lparr>items := [sample_item 1 ''archived'' ''2025-01-10 09:00:00''], item_seq := 1\<rparr>"

definition action_body :: "string \<Rightarrow> patch_body" where
  "action_body a =
     \<lparr>patch_action = Some a, patch_title = None, patch_description = None,
      patch_category = None, patch_location_found = None, patch_date_found = None\<rparr>"

text \<open>An approved item with two claims, one with a proof file and one without; the proof
  file is no longer in the upload directory, the photo is.\<close>

definition claimed_world :: world where
  "claimed_world =
     empty_world\<lparr>items := [sample_item 1 ''approved'' ''2025-01-10 09:00:00''],
                 claims := [sample_claim 1 1 (Some ''proof.png''), sample_claim 2 1 None],
                 item_seq := 1, claim_seq := 2, uploads := {''p.png''}\<rparr>"

definition claim_form :: claim_body where
  "claim_form =
     \<lparr>body_claimant_name = Some ''B'', body_claimant_email = Some ''b@x.com'',
      body_student_id = None, body_message = Some ''It is mine''\<rparr>"

text \<open>A pending, an approved, a claimed and an archived item.\<close>

definition four_statuses :: world where
  "four_statuses =
     empty_world\<lparr>items := [sample_item 1 ''pending'' ''2025-01-10 09:00:00'',
                           sample_item 2 ''approved'' ''2025-01-10 09:00:05'',
                           sample_item 3 ''claimed'' ''2025-01-10 09:00:09'',
                           sample_item 4 ''archived'' ''2025-01-10 09:00:12''],
                 item_seq := 4\<rparr>"

text \<open>The PATCH body \<^verbatim>\<open>{"action": "edit"}\<close> and one that renames the item.\<close>

definition rename_body :: patch_body where
  "rename_body = (action_body ''edit'')\<lparr>patch_title := Some ''  Red Backpack ''\<rparr>"

definition open_query :: list_query where
  "open_query = plain_query\<lparr>query_status := Some []\<rparr>"

section \<open>Properties\<close>

subsection \<open>Auxiliary facts: evaluation on the sample data\<close>

lemma to_number_small: "abs v < 2 ^ 53 \<Longrightarrow> to_number v = Num v"
  by (simp add: to_number_def)

lemma parseInt_samples:
  "parseInt ''1'' = Num 1" "parseInt ''2'' = Num 2" "parseInt ''3'' = Num 3"
  "parseInt ''7'' = Num 7" "parseInt ''9'' = Num 9" "parseInt ''abc'' = NaN"
  "parseInt [] = NaN"
  by (simp_all add: parseInt_def is_ws_def digit_of_def to_number_def)

lemma default_query_numeric: "pageNum None = Num 1" "perPage None = Num 20"
  by (simp_all add: pageNum_def perPage_def Math_max_def Math_min_def dflt_def parseInt_def
      is_ws_def digit_of_def to_number_def)

lemma isAdmin_samples: "isAdmin admin_session" "\<not> isAdmin None"
  by (simp_all add: isAdmin_def admin_session_def)

lemma sample_item_sel [simp]:
  "item_id (sample_item i st ts) = i" "status (sample_item i st ts) = st"
  "photo_filename (sample_item i st ts) = Some ''p.png''" "created_at (sample_item i st ts) = ts"
  by (simp_all add: sample_item_def)

lemma backpack_fields:
  "required_item_fields backpack_body =
     [''Blue Backpack'', ''Left by the door'', ''Bags'', ''Library'', ''2025-01-10'', ''A'', ''a@x.com'']"
  by (simp add: required_item_fields_def backpack_body_def sanitizeString_def trim_def is_ws_def)

lemma blank_fields:
  "required_item_fields blank_body =
     [[], ''Left by the door'', ''Bags'', ''Library'', ''2025-01-10'', ''A'', ''a@x.com'']"
  by (simp add: required_item_fields_def blank_body_def backpack_body_def sanitizeString_def trim_def is_ws_def)

lemma sanitize_ex1: "sanitizeString (Some ''Blue Backpack'') 120 = ''Blue Backpack''"
  by (simp add: sanitizeString_def trim_def is_ws_def)

subsection \<open>The AUTOINCREMENT invariant is kept by every handler\<close>

lemma wf_empty_world: "wf_world empty_world"
  by (simp add: wf_world_def empty_world_def)

lemma upload_single_fields [simp]:
  "items (upload_single upl w) = items w"
  "claims (upload_single upl w) = claims w"
  "item_seq (upload_single upl w) = item_seq w"
  "claim_seq (upload_single upl w) = claim_seq w"
  "trace (upload_single upl w) = trace w"
  by (simp_all add: upload_single_def split: option.splits)

lemma select_item_upload [simp]: "select_item i (upload_single upl w) = select_item i w"
  by (simp add: select_item_def upload_single_def split: option.splits jsnum.splits)

lemma unlink_keeps_tables:
  "items (unlink_upload upl w) = items w" "claims (unlink_upload upl w) = claims w"
  "item_seq (unlink_upload upl w) = item_seq w" "claim_seq (unlink_upload upl w) = claim_seq w"
  "item_seq (unlink_named n w) = item_seq w" "claim_seq (unlink_named n w) = claim_seq w"
  by (simp_all add: unlink_upload_def unlink_named_def fs_unlink_def split: option.splits)

lemma named_files_Cons: "named_files (n # ns) = named_files [n] @ named_files ns"
  by (simp add: named_files_def)

lemma unlink_named_fields:
  "items (unlink_named n w) = items w"
  "claims (unlink_named n w) = claims w"
  "trace (unlink_named n w) = trace w @ map FsUnlink (named_files [n])"
  "uploads (unlink_named n w) = uploads w - set (named_files [n])"
  by (auto simp: unlink_named_def fs_unlink_def named_files_def split: option.splits)

lemma unlink_proofs_fields:
  "items (unlink_proofs cs w) = items w \<and> claims (unlink_proofs cs w) = claims w \<and>
   trace (unlink_proofs cs w) = trace w @ map FsUnlink (named_files (map proof_filename cs)) \<and>
   uploads (unlink_proofs cs w) = uploads w - set (named_files (map proof_filename cs))"
proof (induction cs arbitrary: w)
  case Nil
  show ?case by (simp add: named_files_def)
next
  case (Cons c cs)
  have "named_files (map proof_filename (c # cs)) =
        named_files [proof_filename c] @ named_files (map proof_filename cs)"
    by (simp add: named_files_def)
  with Cons[of "unlink_named (proof_filename c) w"] show ?case
    by (auto simp: unlink_named_fields)
qed

lemma unlink_proofs_seqs:
  "item_seq (unlink_proofs cs w) = item_seq w \<and> claim_seq (unlink_proofs cs w) = claim_seq w"
  by (induction cs arbitrary: w) (simp_all add: unlink_keeps_tables)

lemma wf_world_tables:
  "items w' = items w \<Longrightarrow> claims w' = claims w \<Longrightarrow> item_seq w' = item_seq w \<Longrightarrow>
   claim_seq w' = claim_seq w \<Longrightarrow> wf_world w' = wf_world w"
  by (simp add: wf_world_def)

lemma wf_world_ids:
  "wf_world w =
     ((\<forall>i \<in> set (map item_id (items w)). i \<le> item_seq w) \<and> distinct (map item_id (items w)) \<and>
      (\<forall>i \<in> set (map claim_id (claims w)). i \<le> claim_seq w) \<and> distinct (map claim_id (claims w)))"
  by (simp add: wf_world_def)

lemma wf_world_cong_ids:
  assumes "map item_id (items w') = map item_id (items w)"
    and "map claim_id (claims w') = map claim_id (claims w)"
    and "item_seq w' = item_seq w" and "claim_seq w' = claim_seq w"
  shows "wf_world w' = wf_world w"
  unfolding wf_world_ids by (simp only: assms)

lemma map_item_id_update:
  "(\<And>x. item_id (f x) = item_id x) \<Longrightarrow>
   map item_id (map (\<lambda>x. if item_id x = n then f x else x) xs) = map item_id xs"
  by (induction xs) simp_all

lemma wf_update_item:
  assumes "\<And>x. item_id (f x) = item_id x" and "wf_world w"
  shows "wf_world (update_item n f w)"
proof -
  have "map item_id (items (update_item n f w)) = map item_id (items w)"
    by (simp add: update_item_def map_item_id_update[OF assms(1)] del: map_map)
  then have "wf_world (update_item n f w) = wf_world w"
    by (rule wf_world_cong_ids) (simp_all add: update_item_def)
  with assms(2) show ?thesis by simp
qed

lemma map_claim_id_update:
  "map claim_id (map (\<lambda>c. if claim_id c = n then c\<lparr>claim_status := s\<rparr> else c) cs) = map claim_id cs"
  by (induction cs) simp_all

lemma wf_post_item: "wf_world w \<Longrightarrow> wf_world (snd (post_item body upl now w))"
  by (fastforce simp: post_item_def Let_def insert_item_def wf_world_def unlink_keeps_tables)

lemma wf_post_claim: "wf_world w \<Longrightarrow> wf_world (snd (post_claim idp body upl now w))"
  by (fastforce simp: post_claim_def Let_def insert_claim_def wf_world_def unlink_keeps_tables
      split: option.splits)

lemma wf_patch_item: "wf_world w \<Longrightarrow> wf_world (snd (patch_item sess idp body w))"
  by (auto simp: patch_item_def requireAdmin_def patch_item_handler_def Let_def edit_row_def
      intro!: wf_update_item split: option.splits)

lemma wf_delete_item: "wf_world w \<Longrightarrow> wf_world (snd (delete_item sess idp w))"
  by (auto simp: delete_item_def requireAdmin_def delete_item_handler_def Let_def
      delete_item_row_def wf_world_def unlink_named_fields unlink_proofs_fields
      unlink_keeps_tables unlink_proofs_seqs distinct_map_filter split: option.splits)

lemma wf_patch_claim: "wf_world w \<Longrightarrow> wf_world (snd (patch_claim sess idp st w))"
proof -
  assume wf: "wf_world w"
  have upd: "wf_world (update_claim_status i s w)" for i s
  proof (cases "\<exists>n. i = Num n")
    case False
    then have "update_claim_status i s w = w"
      by (cases i) (simp_all add: update_claim_status_def)
    with wf show ?thesis by simp
  next
    case True
    then obtain n where i: "i = Num n" by blast
    then have "map claim_id (claims (update_claim_status i s w)) = map claim_id (claims w)"
      by (simp add: update_claim_status_def map_claim_id_update del: map_map)
    then have "wf_world (update_claim_status i s w) = wf_world w"
      using i by (intro wf_world_cong_ids) (simp_all add: update_claim_status_def)
    with wf show ?thesis by simp
  qed
  show ?thesis
    using wf upd
    by (auto simp: patch_claim_def requireAdmin_def patch_claim_handler_def Let_def
        split: option.splits)
qed

subsection \<open>Listing: rows, totals and pages\<close>

lemma set_matching_rows: "set (matching_rows qr w) = {r \<in> set (items w). where_clause qr r}"
  by (auto simp: matching_rows_def order_by_def)

lemma listed_rows_match:
  assumes "list_items qr w = Inr resp" and "l \<in> set (resp_items resp)"
  shows "\<exists>r \<in> set (items w). where_clause qr r \<and> l = listing_of r"
proof -
  from assms(1) obtain a b where
    resp: "resp_items resp = map listing_of (take a (drop b (matching_rows qr w)))"
    by (auto simp: list_items_def Let_def split: option.splits jsnum.splits)
  with assms(2) obtain r where r: "r \<in> set (take a (drop b (matching_rows qr w)))"
    and l: "l = listing_of r" by auto
  from r have "r \<in> set (matching_rows qr w)"
    by (meson in_set_dropD in_set_takeD)
  with l show ?thesis by (auto simp: set_matching_rows)
qed

lemma default_status_filter:
  "query_status qr = None \<Longrightarrow> where_clause qr r \<Longrightarrow> status r = ''approved''"
  by (simp add: where_clause_def dflt_def Let_def)

lemma concat_slices: "concat (map (\<lambda>k. take L (drop (k * L) xs)) [0..<n]) = take (n * L) xs"
proof (induction n)
  case 0
  show ?case by simp
next
  case (Suc n)
  have "take (Suc n * L) xs = take (n * L + L) xs" by (simp add: add.commute)
  also have "\<dots> = take (n * L) xs @ take L (drop (n * L) xs)" by (rule take_add)
  finally show ?case using Suc by simp
qed

lemma where_clause_page [simp]: "where_clause (qr\<lparr>query_page := p\<rparr>) = where_clause qr"
  by (rule ext) (simp add: where_clause_def)

lemma matching_rows_page [simp]: "matching_rows (qr\<lparr>query_page := p\<rparr>) w = matching_rows qr w"
  by (simp add: matching_rows_def)

lemma mset_matching_rows:
  "mset (matching_rows qr w) = filter_mset (where_clause qr) (mset (items w))"
  by (simp add: matching_rows_def order_by_def)

lemma length_matching_rows:
  "length (matching_rows qr w) = length (filter (where_clause qr) (items w))"
  by (simp add: matching_rows_def order_by_def)

lemma sorted_matching_rows:
  "dflt ''newest'' (query_sort qr) = ''oldest'' \<Longrightarrow> sorted (map created_at (matching_rows qr w))"
  "dflt ''newest'' (query_sort qr) \<noteq> ''oldest'' \<Longrightarrow> sorted (rev (map created_at (matching_rows qr w)))"
  by (simp_all add: matching_rows_def order_by_def rev_map)

lemma distinct_matching_rows:
  assumes "wf_world w"
  shows "distinct (map item_id (matching_rows qr w))"
proof -
  have "mset (map item_id (matching_rows qr w)) =
        mset (map item_id (filter (where_clause qr) (items w)))"
    by (simp add: mset_matching_rows)
  moreover from assms have "distinct (map item_id (filter (where_clause qr) (items w)))"
    by (simp add: wf_world_def distinct_map_filter)
  ultimately show ?thesis using mset_eq_imp_distinct_iff by blast
qed

lemma listing_ids: "map l_id (map listing_of rows) = map item_id rows"
  by (simp add: listing_of_def)

lemma perPage_pos: "perPage l = Num pp \<Longrightarrow> 1 \<le> pp \<and> pp \<le> 50"
  by (auto simp: perPage_def Math_max_def Math_min_def split: jsnum.splits)

lemma pageNum_pos: "pageNum p = Num pn \<Longrightarrow> 1 \<le> pn"
  by (auto simp: pageNum_def Math_max_def split: jsnum.splits)

lemma list_items_numeric:
  assumes "pageNum (query_page qr) = Num pn" and "perPage (query_limit qr) = Num pp"
    and "(pn - 1) * pp < 2 ^ 53"
  shows "list_items qr w =
           Inr \<lparr>resp_page = pn, resp_limit = pp,
                resp_total = length (filter (where_clause qr) (items w)),
                resp_items = map listing_of
                  (take (nat pp) (drop (nat ((pn - 1) * pp)) (matching_rows qr w)))\<rparr>"
proof -
  from pageNum_pos[OF assms(1)] have pn: "0 \<le> pn - 1" by simp
  from perPage_pos[OF assms(2)] have pp: "1 \<le> pp" "pp \<le> 50" by simp_all
  from pn pp have nonneg: "0 \<le> (pn - 1) * pp" by simp
  from pn pp have "(pn - 1) * 1 \<le> (pn - 1) * pp" by (intro mult_left_mono) simp_all
  with assms(3) have "pn - 1 < 2 ^ 53" by simp
  with pn have "to_number (pn - 1) = Num (pn - 1)" by (intro to_number_small) simp
  then have minus: "js_minus (Num pn) 1 = Num (pn - 1)" by (simp add: js_minus_def)
  from nonneg assms(3) have "to_number ((pn - 1) * pp) = Num ((pn - 1) * pp)"
    by (intro to_number_small) simp
  then have times: "js_times (Num (pn - 1)) (Num pp) = Num ((pn - 1) * pp)"
    by (simp add: js_times_def)
  from pp have lim: "sql_integer (Num pp) = Some pp" by (simp add: sql_integer_def)
  from nonneg assms(3) have off: "sql_integer (Num ((pn - 1) * pp)) = Some ((pn - 1) * pp)"
    by (simp add: sql_integer_def)
  show ?thesis
    by (simp add: list_items_def assms(1,2) minus times lim off)
qed

lemma list_items_total:
  "list_items qr w = Inr resp \<Longrightarrow>
   resp_total resp = length (filter (where_clause qr) (items w))"
  by (auto simp: list_items_def Let_def split: option.splits jsnum.splits)

lemma list_items_numeric_bounds:
  assumes "pageNum (query_page qr) = Num pn" and "perPage (query_limit qr) = Num pp"
    and "(pn - 1) * pp < 2 ^ 53"
  shows "\<exists>resp. list_items qr w = Inr resp \<and> resp_page resp = pn \<and> 1 \<le> pn \<and>
           resp_limit resp = pp \<and> 1 \<le> pp \<and> pp \<le> 50 \<and>
           int (length (resp_items resp)) \<le> pp \<and>
           resp_items resp = map listing_of
             (take (nat pp) (drop (nat ((pn - 1) * pp)) (matching_rows qr w)))"
proof -
  from perPage_pos[OF assms(2)] have pp: "1 \<le> pp" "pp \<le> 50" by simp_all
  have "length (take (nat pp) (drop (nat ((pn - 1) * pp)) (matching_rows qr w))) \<le> nat pp"
    by simp
  with pp have "int (length (take (nat pp) (drop (nat ((pn - 1) * pp)) (matching_rows qr w)))) \<le> pp"
    by linarith
  with list_items_numeric[OF assms, of w] pageNum_pos[OF assms(1)] pp show ?thesis
    by simp
qed

lemma three_approved_rows:
  "matching_rows (plain_query\<lparr>query_limit := Some ''2''\<rparr>) three_approved =
     [sample_item 3 ''approved'' ''2025-01-10 09:00:09'',
      sample_item 2 ''approved'' ''2025-01-10 09:00:05'',
      sample_item 1 ''approved'' ''2025-01-10 09:00:00'']"
  "filter (where_clause (plain_query\<lparr>query_limit := Some ''2''\<rparr>)) (items three_approved) =
     items three_approved"
  by (simp_all add: matching_rows_def order_by_def where_clause_def dflt_def plain_query_def
      three_approved_def empty_world_def sample_item_def)

lemma four_statuses_rows:
  "matching_rows open_query four_statuses =
     [sample_item 4 ''archived'' ''2025-01-10 09:00:12'',
      sample_item 3 ''claimed'' ''2025-01-10 09:00:09'',
      sample_item 2 ''approved'' ''2025-01-10 09:00:05'',
      sample_item 1 ''pending'' ''2025-01-10 09:00:00'']"
  "filter (where_clause open_query) (items four_statuses) = items four_statuses"
  by (simp_all add: matching_rows_def order_by_def where_clause_def dflt_def plain_query_def
      open_query_def four_statuses_def empty_world_def sample_item_def)

subsection \<open>Submitting an item (C1)\<close>

text \<open>
  Claim C1.  A submission whose seven required fields are all non-empty once capped and
  trimmed is answered with the next rowid and \<^verbatim>\<open>'pending'\<close>; exactly one row is
  appended to \<^verbatim>\<open>items\<close>, with status \<^verbatim>\<open>'pending'\<close>, and, in a store that satisfies
  the AUTOINCREMENT invariant, no listing that gives no \<^verbatim>\<open>status\<close> parameter shows that
  rowid.  A submission with an empty required field is answered with the validation error,
  leaves \<^verbatim>\<open>items\<close> as it was, and its single write is the removal of the uploaded
  photo, which is then no longer in the upload directory.
\<close>

theorem post_item_pending_or_rejected:
  "([] \<notin> set (required_item_fields body) \<longrightarrow>
      (\<exists>row. fst (post_item body upl now w) = Inr (item_seq w + 1, ''pending'') \<and>
             items (snd (post_item body upl now w)) = items w @ [row] \<and>
             item_id row = item_seq w + 1 \<and> status row = ''pending'' \<and>
             (wf_world w \<longrightarrow>
                (\<forall>qr resp. query_status qr = None \<and>
                     list_items qr (snd (post_item body upl now w)) = Inr resp \<longrightarrow>
                   item_id row \<notin> l_id ` set (resp_items resp))))) \<and>
   ([] \<in> set (required_item_fields body) \<longrightarrow>
      fst (post_item body upl now w) = Inl ValidationError \<and>
      items (snd (post_item body upl now w)) = items w \<and>
      (\<forall>f. upl = Some f \<longrightarrow>
         f \<notin> uploads (snd (post_item body upl now w)) \<and>
         trace (snd (post_item body upl now w)) = trace w @ [FsUnlink f]))"
proof (rule conjI; rule impI)
  let ?res = "post_item body upl now w"
  assume ok: "[] \<notin> set (required_item_fields body)"
  define row where "row = \<lparr>item_id = item_seq w + 1,
      title = sanitizeString (body_title body) 120,
      description = sanitizeString (body_description body) 2000,
      category = sanitizeString (body_category body) 60,
      location_found = sanitizeString (body_location_found body) 120,
      date_found = sanitizeString (body_date_found body) 10,
      photo_filename = upl, status = ''pending'',
      reporter_name = sanitizeString (body_reporter_name body) 80,
      reporter_email = sanitizeString (body_reporter_email body) 120, created_at = now\<rparr>"
  from ok have fst_res: "fst ?res = Inr (item_seq w + 1, ''pending'')"
    and its: "items (snd ?res) = items w @ [row]"
    by (auto simp: post_item_def required_item_fields_def insert_item_def Let_def
        upload_single_def row_def split: option.splits)
  have hidden: "item_id row \<notin> l_id ` set (resp_items resp)"
    if wf: "wf_world w" and q: "query_status qr = None" and l: "list_items qr (snd ?res) = Inr resp"
    for qr resp
  proof
    assume "item_id row \<in> l_id ` set (resp_items resp)"
    then obtain x where x: "x \<in> set (resp_items resp)" and idx: "l_id x = item_id row" by auto
    from listed_rows_match[OF l x] obtain r where
      r: "r \<in> set (items (snd ?res))" and m: "where_clause qr r" and xr: "x = listing_of r" by auto
    from default_status_filter[OF q m] have st: "status r = ''approved''" .
    from idx xr have idr: "item_id r = item_seq w + 1" by (simp add: listing_of_def row_def)
    from r its have "r \<in> set (items w) \<or> r = row" by auto
    then show False
    proof
      assume "r \<in> set (items w)"
      with wf have "item_id r \<le> item_seq w" by (auto simp: wf_world_def)
      with idr show False by simp
    next
      assume "r = row"
      with st show False by (simp add: row_def)
    qed
  qed
  show "\<exists>row. fst ?res = Inr (item_seq w + 1, ''pending'') \<and>
             items (snd ?res) = items w @ [row] \<and>
             item_id row = item_seq w + 1 \<and> status row = ''pending'' \<and>
             (wf_world w \<longrightarrow>
                (\<forall>qr resp. query_status qr = None \<and> list_items qr (snd ?res) = Inr resp \<longrightarrow>
                   item_id row \<notin> l_id ` set (resp_items resp)))"
    using fst_res its hidden by (intro exI[of _ row]) (auto simp: row_def)
next
  let ?res = "post_item body upl now w"
  assume bad: "[] \<in> set (required_item_fields body)"
  then have c: "sanitizeString (body_title body) 120 = [] \<or> sanitizeString (body_description body) 2000 = [] \<or>
      sanitizeString (body_category body) 60 = [] \<or> sanitizeString (body_location_found body) 120 = [] \<or>
      sanitizeString (body_date_found body) 10 = [] \<or> sanitizeString (body_reporter_name body) 80 = [] \<or>
      sanitizeString (body_reporter_email body) 120 = []"
    by (auto simp: required_item_fields_def)
  then have r: "?res = (Inl ValidationError, unlink_upload upl (upload_single upl w))"
    unfolding post_item_def Let_def by (simp only: if_True)
  show "fst ?res = Inl ValidationError \<and> items (snd ?res) = items w \<and>
           (\<forall>f. upl = Some f \<longrightarrow>
              f \<notin> uploads (snd ?res) \<and> trace (snd ?res) = trace w @ [FsUnlink f])"
    by (simp only: r) (cases upl; simp add: unlink_upload_def upload_single_def fs_unlink_def)
qed

theorem post_item_pending_or_rejected_witness:
  "[] \<notin> set (required_item_fields backpack_body) \<and> wf_world empty_world \<and>
   query_status plain_query = None \<and>
   fst (post_item backpack_body None ''2025-01-10 09:00:00'' empty_world) = Inr (1, ''pending'') \<and>
   map status (items (snd (post_item backpack_body None ''2025-01-10 09:00:00'' empty_world))) = [''pending''] \<and>
   (\<exists>resp. list_items plain_query
       (snd (post_item backpack_body None ''2025-01-10 09:00:00'' empty_world)) = Inr resp \<and>
      1 \<notin> l_id ` set (resp_items resp)) \<and>
   [] \<in> set (required_item_fields blank_body) \<and>
   fst (post_item blank_body (Some ''u1.png'') ''2025-01-10 09:00:00'' empty_world) = Inl ValidationError \<and>
   items (snd (post_item blank_body (Some ''u1.png'') ''2025-01-10 09:00:00'' empty_world)) = [] \<and>
   ''u1.png'' \<notin> uploads (snd (post_item blank_body (Some ''u1.png'') ''2025-01-10 09:00:00'' empty_world))"
proof -
  let ?w = "snd (post_item backpack_body None ''2025-01-10 09:00:00'' empty_world)"
  have ok: "[] \<notin> set (required_item_fields backpack_body)" by (simp add: backpack_fields)
  have bad: "[] \<in> set (required_item_fields blank_body)" by (simp add: blank_fields)
  have q: "query_status plain_query = None" by (simp add: plain_query_def)
  have "pageNum (query_page plain_query) = Num 1" "perPage (query_limit plain_query) = Num 20"
    by (simp_all add: plain_query_def default_query_numeric)
  then have l: "\<exists>resp. list_items plain_query ?w = Inr resp"
    using list_items_numeric[of plain_query 1 20 ?w] by simp
  from post_item_pending_or_rejected[of backpack_body None "''2025-01-10 09:00:00''" empty_world]
    ok wf_empty_world q l
  have a: "fst (post_item backpack_body None ''2025-01-10 09:00:00'' empty_world) = Inr (1, ''pending'') \<and>
   map status (items ?w) = [''pending''] \<and>
   (\<exists>resp. list_items plain_query ?w = Inr resp \<and> 1 \<notin> l_id ` set (resp_items resp))"
    by (auto simp: empty_world_def)
  from post_item_pending_or_rejected[of blank_body "Some ''u1.png''" "''2025-01-10 09:00:00''" empty_world]
    bad
  have b: "fst (post_item blank_body (Some ''u1.png'') ''2025-01-10 09:00:00'' empty_world) = Inl ValidationError \<and>
   items (snd (post_item blank_body (Some ''u1.png'') ''2025-01-10 09:00:00'' empty_world)) = [] \<and>
   ''u1.png'' \<notin> uploads (snd (post_item blank_body (Some ''u1.png'') ''2025-01-10 09:00:00'' empty_world))"
    by (simp add: empty_world_def)
  from ok bad q wf_empty_world a b show ?thesis by simp
qed

subsection \<open>Pages of a listing (C2)\<close>

text \<open>
  Claim C2.  With a limit that parses to \<open>pp\<close> and page parameters that parse to
  \<open>1, \<dots>, n\<close>, the filters and the sort being the same, and \<open>n * pp\<close> at most
  \<open>2^53\<close>, so that every page number and offset is an exact JavaScript number (beyond
  that the numbers are rounded, and past the 64-bit range the request is refused): a
  request that is answered with a listing, whatever its page, reports as total the number
  of stored rows that satisfy the WHERE clause; every one of the pages \<open>1, \<dots>, n\<close>
  is so answered; the pages joined in order are the
  first \<open>n * pp\<close> rows of the ordered result, and all of it once \<open>n * pp\<close> reaches the
  total; the ordered result has every matching row exactly as often as the table has it, and
  in a store with unique rowids no rowid comes twice on the pages;
  it ascends in \<^verbatim>\<open>created_at\<close> for \<^verbatim>\<open>sort=oldest\<close> and descends for any other sort,
  the default included.
\<close>

theorem list_items_pages:
  assumes lim: "perPage (query_limit qr) = Num pp"
    and pgs: "\<forall>k<n. pageNum (pg k) = Num (int k + 1)"
    and small: "int n * pp \<le> 2 ^ 53"
  shows "(\<forall>p resp. list_items (qr\<lparr>query_page := p\<rparr>) w = Inr resp \<longrightarrow>
             resp_total resp = length (filter (where_clause qr) (items w))) \<and>
         (\<forall>k<n. \<exists>resp. list_items (qr\<lparr>query_page := pg k\<rparr>) w = Inr resp \<and>
             resp_total resp = length (filter (where_clause qr) (items w))) \<and>
         concat (map (\<lambda>k. page_items (list_items (qr\<lparr>query_page := pg k\<rparr>) w)) [0..<n]) =
           map listing_of (take (n * nat pp) (matching_rows qr w)) \<and>
         (length (filter (where_clause qr) (items w)) \<le> n * nat pp \<longrightarrow>
            concat (map (\<lambda>k. page_items (list_items (qr\<lparr>query_page := pg k\<rparr>) w)) [0..<n]) =
              map listing_of (matching_rows qr w)) \<and>
         mset (matching_rows qr w) = filter_mset (where_clause qr) (mset (items w)) \<and>
         (wf_world w \<longrightarrow>
            distinct (map l_id
              (concat (map (\<lambda>k. page_items (list_items (qr\<lparr>query_page := pg k\<rparr>) w)) [0..<n])))) \<and>
         (dflt ''newest'' (query_sort qr) = ''oldest'' \<longrightarrow>
            sorted (map created_at (matching_rows qr w))) \<and>
         (dflt ''newest'' (query_sort qr) \<noteq> ''oldest'' \<longrightarrow>
            sorted (rev (map created_at (matching_rows qr w))))"
proof -
  have page: "list_items (qr\<lparr>query_page := pg k\<rparr>) w =
      Inr \<lparr>resp_page = int k + 1, resp_limit = pp,
           resp_total = length (filter (where_clause qr) (items w)),
           resp_items = map listing_of (take (nat pp) (drop (k * nat pp) (matching_rows qr w)))\<rparr>"
    if "k < n" for k
  proof -
    from pgs that have "pageNum (query_page (qr\<lparr>query_page := pg k\<rparr>)) = Num (int k + 1)" by simp
    moreover from lim have "perPage (query_limit (qr\<lparr>query_page := pg k\<rparr>)) = Num pp" by simp
    moreover have "(int k + 1 - 1) * pp < 2 ^ 53"
    proof -
      from perPage_pos[OF lim] have "0 < pp" by simp
      with that have "int k * pp < int n * pp" by (intro mult_strict_right_mono) simp_all
      with small show ?thesis by simp
    qed
    ultimately have "list_items (qr\<lparr>query_page := pg k\<rparr>) w =
      Inr \<lparr>resp_page = int k + 1, resp_limit = pp,
           resp_total = length (filter (where_clause (qr\<lparr>query_page := pg k\<rparr>)) (items w)),
           resp_items = map listing_of (take (nat pp)
             (drop (nat ((int k + 1 - 1) * pp)) (matching_rows (qr\<lparr>query_page := pg k\<rparr>) w)))\<rparr>"
      by (rule list_items_numeric)
    moreover from perPage_pos[OF lim] have "nat (int k * pp) = k * nat pp"
      by (simp add: nat_mult_distrib)
    ultimately show ?thesis by simp
  qed
  have each: "\<forall>k<n. \<exists>resp. list_items (qr\<lparr>query_page := pg k\<rparr>) w = Inr resp \<and>
             resp_total resp = length (filter (where_clause qr) (items w))"
    using page by simp
  have "map (\<lambda>k. page_items (list_items (qr\<lparr>query_page := pg k\<rparr>) w)) [0..<n] =
        map (\<lambda>k. map listing_of (take (nat pp) (drop (k * nat pp) (matching_rows qr w)))) [0..<n]"
    by (rule map_cong) (simp_all add: page page_items_def)
  also have "concat \<dots> = map listing_of
      (concat (map (\<lambda>k. take (nat pp) (drop (k * nat pp) (matching_rows qr w))) [0..<n]))"
    by (simp add: map_concat comp_def)
  finally have cat: "concat (map (\<lambda>k. page_items (list_items (qr\<lparr>query_page := pg k\<rparr>) w)) [0..<n]) =
           map listing_of (take (n * nat pp) (matching_rows qr w))"
    by (simp add: concat_slices)
  have full: "take (n * nat pp) (matching_rows qr w) = matching_rows qr w"
    if "length (filter (where_clause qr) (items w)) \<le> n * nat pp"
    using that by (simp add: length_matching_rows)
  have dist: "distinct (map l_id
      (concat (map (\<lambda>k. page_items (list_items (qr\<lparr>query_page := pg k\<rparr>) w)) [0..<n])))"
    if "wf_world w"
  proof -
    from distinct_matching_rows[OF that, of qr]
    have "distinct (take (n * nat pp) (map item_id (matching_rows qr w)))"
      by (rule distinct_take)
    then show ?thesis by (simp only: cat listing_ids take_map)
  qed
  have total: "resp_total resp = length (filter (where_clause qr) (items w))"
    if "list_items (qr\<lparr>query_page := p\<rparr>) w = Inr resp" for p resp
    using list_items_total[OF that] by simp
  show ?thesis
    using total each cat full dist mset_matching_rows sorted_matching_rows by simp
qed

theorem list_items_pages_witness:
  "perPage (query_limit (plain_query\<lparr>query_limit := Some ''2''\<rparr>)) = Num 2 \<and>
   int 2 * 2 \<le> 2 ^ 53 \<and>
   wf_world three_approved \<and>
   length (filter (where_clause (plain_query\<lparr>query_limit := Some ''2''\<rparr>)) (items three_approved)) \<le> 2 * nat 2 \<and>
   dflt ''newest'' (query_sort (plain_query\<lparr>query_limit := Some ''2''\<rparr>)) \<noteq> ''oldest'' \<and>
   pageNum (page_param 0) = Num 1 \<and> pageNum (page_param 1) = Num 2 \<and>
   (\<exists>resp. list_items (plain_query\<lparr>query_limit := Some ''2'', query_page := page_param 1\<rparr>)
             three_approved = Inr resp \<and> resp_total resp = 3) \<and>
   concat (map (\<lambda>k. page_items
       (list_items (plain_query\<lparr>query_limit := Some ''2'', query_page := page_param k\<rparr>)
          three_approved)) [0..<2]) =
     map listing_of [sample_item 3 ''approved'' ''2025-01-10 09:00:09'',
                     sample_item 2 ''approved'' ''2025-01-10 09:00:05'',
                     sample_item 1 ''approved'' ''2025-01-10 09:00:00'']"
proof -
  have lim: "perPage (query_limit (plain_query\<lparr>query_limit := Some ''2''\<rparr>)) = Num 2"
    by (simp add: perPage_def Math_max_def Math_min_def dflt_def parseInt_samples)
  have pg: "pageNum (page_param 0) = Num 1" "pageNum (page_param 1) = Num 2"
    by (simp_all add: pageNum_def Math_max_def dflt_def page_param_def parseInt_samples)
  have pgs: "\<forall>k<2. pageNum (page_param k) = Num (int k + 1)"
    using pg by (simp add: less_Suc_eq numeral_2_eq_2)
  have len: "length (items three_approved) = 3"
    by (simp add: three_approved_def empty_world_def)
  have wf: "wf_world three_approved"
    by (simp add: wf_world_def three_approved_def empty_world_def)
  have srt: "dflt ''newest'' (query_sort (plain_query\<lparr>query_limit := Some ''2''\<rparr>)) \<noteq> ''oldest''"
    by (simp add: dflt_def plain_query_def)
  have small: "int 2 * 2 \<le> 2 ^ 53" by simp
  from list_items_pages[OF lim pgs small, of three_approved]
  show ?thesis using lim pg wf srt by (simp add: three_approved_rows len)
qed

subsection \<open>Deleting an item (C3)\<close>

lemma select_item_id: "select_item i w = Some r \<Longrightarrow> i = Num (item_id r) \<and> r \<in> set (items w)"
  by (auto simp: select_item_def find_Some_iff split: jsnum.splits)

text \<open>
  Claim C3.  Deleting with an admin session: with no such row the answer is NotFound and
  nothing changes.  Otherwise the handler issues, in this order, one unlink for each proof
  file named by a claim of the item, one unlink for the photo if the item names one, and
  last the deletion of the row; the row and every claim that refers to it are gone, the
  files named are gone from the upload directory whether or not they were there, and
  reading the id afterwards gives NotFound for any requester.
\<close>

theorem delete_item_cascade:
  "isAdmin sess \<Longrightarrow>
   (select_item (parseInt idp) w = None \<longrightarrow> delete_item sess idp w = (Inl NotFound, w)) \<and>
   (\<forall>r. select_item (parseInt idp) w = Some r \<longrightarrow>
      fst (delete_item sess idp w) = Inr () \<and>
      trace (snd (delete_item sess idp w)) =
        trace w @ map FsUnlink (named_files (map proof_filename (claims_of (item_id r) w)))
                @ map FsUnlink (named_files [photo_filename r]) @ [DbDeleteItem (item_id r)] \<and>
      uploads (snd (delete_item sess idp w)) =
        uploads w - set (named_files (map proof_filename (claims_of (item_id r) w)))
                  - set (named_files [photo_filename r]) \<and>
      items (snd (delete_item sess idp w)) = filter (\<lambda>x. item_id x \<noteq> item_id r) (items w) \<and>
      claims (snd (delete_item sess idp w)) = filter (\<lambda>c. claim_item_id c \<noteq> item_id r) (claims w) \<and>
      claims_of (item_id r) (snd (delete_item sess idp w)) = [] \<and>
      get_item idp sess' (snd (delete_item sess idp w)) = Inl NotFound)"
proof (rule conjI; (rule allI)?; rule impI)
  assume adm: "isAdmin sess" and none: "select_item (parseInt idp) w = None"
  then show "delete_item sess idp w = (Inl NotFound, w)"
    by (simp add: delete_item_def requireAdmin_def delete_item_handler_def)
next
  fix r
  assume adm: "isAdmin sess" and some: "select_item (parseInt idp) w = Some r"
  let ?cs = "claims_of (item_id r) w"
  let ?w1 = "unlink_proofs ?cs w"
  let ?w2 = "unlink_named (photo_filename r) ?w1"
  let ?w' = "delete_item_row (item_id r) ?w2"
  from adm some have res: "delete_item sess idp w = (Inr (), ?w')"
    by (simp add: delete_item_def requireAdmin_def delete_item_handler_def claims_of_def Let_def)
  from select_item_id[OF some] have idp: "parseInt idp = Num (item_id r)" by simp
  have gone: "select_item (Num (item_id r)) ?w' = None"
    by (simp add: select_item_def delete_item_row_def find_None_iff)
  show "fst (delete_item sess idp w) = Inr () \<and>
      trace (snd (delete_item sess idp w)) =
        trace w @ map FsUnlink (named_files (map proof_filename (claims_of (item_id r) w)))
                @ map FsUnlink (named_files [photo_filename r]) @ [DbDeleteItem (item_id r)] \<and>
      uploads (snd (delete_item sess idp w)) =
        uploads w - set (named_files (map proof_filename (claims_of (item_id r) w)))
                  - set (named_files [photo_filename r]) \<and>
      items (snd (delete_item sess idp w)) = filter (\<lambda>x. item_id x \<noteq> item_id r) (items w) \<and>
      claims (snd (delete_item sess idp w)) = filter (\<lambda>c. claim_item_id c \<noteq> item_id r) (claims w) \<and>
      claims_of (item_id r) (snd (delete_item sess idp w)) = [] \<and>
      get_item idp sess' (snd (delete_item sess idp w)) = Inl NotFound"
    using gone idp
    by (simp add: res delete_item_row_def unlink_named_fields unlink_proofs_fields
        get_item_def claims_of_def)
qed

theorem delete_item_cascade_witness:
  "isAdmin admin_session \<and> select_item (parseInt ''9'') claimed_world = None \<and>
   delete_item admin_session ''9'' claimed_world = (Inl NotFound, claimed_world) \<and>
   select_item (parseInt ''1'') claimed_world = Some (sample_item 1 ''approved'' ''2025-01-10 09:00:00'') \<and>
   ''proof.png'' \<notin> uploads claimed_world \<and>
   fst (delete_item admin_session ''1'' claimed_world) = Inr () \<and>
   trace (snd (delete_item admin_session ''1'' claimed_world)) =
     [FsUnlink ''proof.png'', FsUnlink ''p.png'', DbDeleteItem 1] \<and>
   uploads (snd (delete_item admin_session ''1'' claimed_world)) = {} \<and>
   items (snd (delete_item admin_session ''1'' claimed_world)) = [] \<and>
   claims (snd (delete_item admin_session ''1'' claimed_world)) = [] \<and>
   get_item ''1'' admin_session (snd (delete_item admin_session ''1'' claimed_world)) = Inl NotFound"
proof -
  have s9: "select_item (parseInt ''9'') claimed_world = None"
    and s1: "select_item (parseInt ''1'') claimed_world = Some (sample_item 1 ''approved'' ''2025-01-10 09:00:00'')"
    by (simp_all add: parseInt_samples select_item_def claimed_world_def empty_world_def sample_item_def)
  have cs: "named_files (map proof_filename (claims_of 1 claimed_world)) = [''proof.png'']"
    "named_files [Some ''p.png''] = [''p.png'']"
    by (simp_all add: named_files_def claims_of_def claimed_world_def empty_world_def
        sample_item_def sample_claim_def)
  have w: "trace claimed_world = []" "uploads claimed_world = {''p.png''}"
    "filter (\<lambda>x. item_id x \<noteq> 1) (items claimed_world) = []"
    "filter (\<lambda>c. claim_item_id c \<noteq> 1) (claims claimed_world) = []"
    by (simp_all add: claimed_world_def empty_world_def sample_item_def sample_claim_def)
  from delete_item_cascade[OF isAdmin_samples(1), of "''9''" claimed_world admin_session]
    delete_item_cascade[OF isAdmin_samples(1), of "''1''" claimed_world admin_session]
    s9 s1 isAdmin_samples(1)
  show ?thesis by (simp add: cs w)
qed

subsection \<open>Reading an item (C4)\<close>

text \<open>
  Claim C4.  Reading an item by id: no row gives NotFound; a row that is not approved, read
  without an admin session, gives Forbidden; an approved row, or any row read with an admin
  session, is returned whole.
\<close>

theorem get_item_access:
  "(select_item (parseInt idp) w = None \<longrightarrow> get_item idp sess w = Inl NotFound) \<and>
   (\<forall>r. select_item (parseInt idp) w = Some r \<longrightarrow>
      (status r \<noteq> ''approved'' \<and> \<not> isAdmin sess \<longrightarrow> get_item idp sess w = Inl Forbidden) \<and>
      (status r = ''approved'' \<or> isAdmin sess \<longrightarrow> get_item idp sess w = Inr r))"
  by (auto simp: get_item_def)

theorem get_item_access_witness:
  "select_item (parseInt ''3'') two_items = None \<and>
   get_item ''3'' None two_items = Inl NotFound \<and>
   select_item (parseInt ''1'') two_items = Some (sample_item 1 ''pending'' ''2025-01-10 09:00:00'') \<and>
   status (sample_item 1 ''pending'' ''2025-01-10 09:00:00'') \<noteq> ''approved'' \<and> \<not> isAdmin None \<and>
   get_item ''1'' None two_items = Inl Forbidden \<and>
   isAdmin admin_session \<and>
   get_item ''1'' admin_session two_items = Inr (sample_item 1 ''pending'' ''2025-01-10 09:00:00'') \<and>
   get_item ''2'' None two_items = Inr (sample_item 2 ''approved'' ''2025-01-10 09:00:05'')"
proof -
  have s3: "select_item (parseInt ''3'') two_items = None"
    and s1: "select_item (parseInt ''1'') two_items = Some (sample_item 1 ''pending'' ''2025-01-10 09:00:00'')"
    and s2: "select_item (parseInt ''2'') two_items = Some (sample_item 2 ''approved'' ''2025-01-10 09:00:05'')"
    by (simp_all add: parseInt_samples select_item_def two_items_def empty_world_def sample_item_def)
  have st: "status (sample_item 1 ''pending'' ''2025-01-10 09:00:00'') \<noteq> ''approved''"
    "status (sample_item 2 ''approved'' ''2025-01-10 09:00:05'') = ''approved''"
    by (simp_all add: sample_item_def)
  from get_item_access[of "''3''" two_items None] get_item_access[of "''1''" two_items None]
    get_item_access[of "''1''" two_items admin_session] get_item_access[of "''2''" two_items None]
    s1 s2 s3 st isAdmin_samples
  show ?thesis by simp
qed

subsection \<open>Status transitions (C5)\<close>

lemma find_map_update:
  assumes "\<And>x. item_id (f x) = item_id x"
  shows "find (\<lambda>x. item_id x = n) (map (\<lambda>x. if item_id x = n then f x else x) xs) =
         map_option f (find (\<lambda>x. item_id x = n) xs)"
  using assms by (induction xs) simp_all

lemma select_after_update:
  assumes "\<And>x. item_id (f x) = item_id x"
  shows "select_item (Num n) (update_item n f w) = map_option f (select_item (Num n) w)"
  using find_map_update[of f n "items w", OF assms] by (simp add: select_item_def update_item_def)

text \<open>
  Claim C5, as amended.  For an admin and an existing item, whatever its status:
  \<^verbatim>\<open>approve\<close> stores \<^verbatim>\<open>'approved'\<close>, \<^verbatim>\<open>archive\<close> stores \<^verbatim>\<open>'archived'\<close>,
  \<^verbatim>\<open>mark_claimed\<close> stores \<^verbatim>\<open>'claimed'\<close>, \<^verbatim>\<open>edit\<close> leaves the status as it is, and
  any other action is refused with no change.  No action is guarded by the current status.
\<close>

theorem item_actions_unconditional:
  "isAdmin sess \<Longrightarrow> select_item (parseInt idp) w = Some r \<Longrightarrow>
   (patch_action body = Some ''approve'' \<longrightarrow>
      fst (patch_item sess idp body w) = Inr (Some (r\<lparr>status := ''approved''\<rparr>)) \<and>
      select_item (parseInt idp) (snd (patch_item sess idp body w)) = Some (r\<lparr>status := ''approved''\<rparr>)) \<and>
   (patch_action body = Some ''archive'' \<longrightarrow>
      fst (patch_item sess idp body w) = Inr (Some (r\<lparr>status := ''archived''\<rparr>)) \<and>
      select_item (parseInt idp) (snd (patch_item sess idp body w)) = Some (r\<lparr>status := ''archived''\<rparr>)) \<and>
   (patch_action body = Some ''mark_claimed'' \<longrightarrow>
      fst (patch_item sess idp body w) = Inr (Some (r\<lparr>status := ''claimed''\<rparr>)) \<and>
      select_item (parseInt idp) (snd (patch_item sess idp body w)) = Some (r\<lparr>status := ''claimed''\<rparr>)) \<and>
   (patch_action body = Some ''edit'' \<longrightarrow>
      fst (patch_item sess idp body w) = Inr (Some (edit_row body r)) \<and>
      select_item (parseInt idp) (snd (patch_item sess idp body w)) = Some (edit_row body r) \<and>
      status (edit_row body r) = status r) \<and>
   (patch_action body \<notin> {Some ''approve'', Some ''archive'', Some ''mark_claimed'', Some ''edit''} \<longrightarrow>
      patch_item sess idp body w = (Inl InvalidAction, w))"
proof -
  assume adm: "isAdmin sess" and some: "select_item (parseInt idp) w = Some r"
  from select_item_id[OF some] have idp: "parseInt idp = Num (item_id r)" by simp
  have upd: "select_item (Num (item_id r)) (update_item (item_id r) f w) = Some (f r)"
    if "\<And>x. item_id (f x) = item_id x" for f
    using select_after_update[of f "item_id r" w, OF that] some idp by simp
  have u1: "select_item (Num (item_id r)) (update_item (item_id r) (\<lambda>x. x\<lparr>status := s\<rparr>) w) =
            Some (r\<lparr>status := s\<rparr>)" for s
    by (rule upd) simp
  have u2: "select_item (Num (item_id r)) (update_item (item_id r) (edit_row body) w) =
            Some (edit_row body r)"
    by (rule upd) (simp add: edit_row_def)
  from adm some idp u1 u2 show ?thesis
    by (simp add: patch_item_def requireAdmin_def patch_item_handler_def Let_def edit_row_def)
qed

theorem item_actions_unconditional_witness:
  "isAdmin admin_session \<and>
   select_item (parseInt ''3'') four_statuses = Some (sample_item 3 ''claimed'' ''2025-01-10 09:00:09'') \<and>
   patch_action (action_body ''approve'') = Some ''approve'' \<and>
   fst (patch_item admin_session ''3'' (action_body ''approve'') four_statuses) =
     Inr (Some (sample_item 3 ''approved'' ''2025-01-10 09:00:09'')) \<and>
   fst (patch_item admin_session ''3'' (action_body ''archive'') four_statuses) =
     Inr (Some (sample_item 3 ''archived'' ''2025-01-10 09:00:09'')) \<and>
   fst (patch_item admin_session ''3'' (action_body ''mark_claimed'') four_statuses) =
     Inr (Some (sample_item 3 ''claimed'' ''2025-01-10 09:00:09'')) \<and>
   status (edit_row rename_body (sample_item 3 ''claimed'' ''2025-01-10 09:00:09'')) = ''claimed'' \<and>
   fst (patch_item admin_session ''3'' rename_body four_statuses) =
     Inr (Some (edit_row rename_body (sample_item 3 ''claimed'' ''2025-01-10 09:00:09''))) \<and>
   patch_item admin_session ''3'' (action_body ''reopen'') four_statuses =
     (Inl InvalidAction, four_statuses)"
proof -
  have s3: "select_item (parseInt ''3'') four_statuses = Some (sample_item 3 ''claimed'' ''2025-01-10 09:00:09'')"
    by (simp add: parseInt_samples select_item_def four_statuses_def empty_world_def sample_item_def)
  have upd: "(sample_item 3 ''claimed'' ''2025-01-10 09:00:09'')\<lparr>status := s\<rparr> =
             sample_item 3 s ''2025-01-10 09:00:09''" for s
    by (simp add: sample_item_def)
  have act: "patch_action (action_body a) = Some a" for a
    by (simp add: action_body_def)
  have ren: "patch_action rename_body = Some ''edit''"
    by (simp add: rename_body_def action_body_def)
  from item_actions_unconditional[OF isAdmin_samples(1) s3, of "action_body ''approve''"]
    item_actions_unconditional[OF isAdmin_samples(1) s3, of "action_body ''archive''"]
    item_actions_unconditional[OF isAdmin_samples(1) s3, of "action_body ''mark_claimed''"]
    item_actions_unconditional[OF isAdmin_samples(1) s3, of rename_body]
    item_actions_unconditional[OF isAdmin_samples(1) s3, of "action_body ''reopen''"]
    s3 isAdmin_samples(1)
  show ?thesis by (simp add: upd act ren)
qed

text \<open>
  Claim C5 as stated fails: \<^verbatim>\<open>approve\<close> on an archived item makes it approved.
\<close>

theorem archived_reapproved_counterexample:
  "status (sample_item 1 ''archived'' ''2025-01-10 09:00:00'') = ''archived'' \<and>
   items archived_world = [sample_item 1 ''archived'' ''2025-01-10 09:00:00''] \<and>
   isAdmin admin_session \<and>
   fst (patch_item admin_session ''1'' (action_body ''approve'') archived_world) =
     Inr (Some (sample_item 1 ''approved'' ''2025-01-10 09:00:00'')) \<and>
   items (snd (patch_item admin_session ''1'' (action_body ''approve'') archived_world)) =
     [sample_item 1 ''approved'' ''2025-01-10 09:00:00'']"
  by (simp add: patch_item_def requireAdmin_def patch_item_handler_def Let_def isAdmin_def
      admin_session_def archived_world_def empty_world_def action_body_def sample_item_def
      select_item_def update_item_def parseInt_samples)

subsection \<open>Submitting a claim (C6)\<close>

text \<open>
  Claim C6.  A claim against an id with no row, or against an archived item, is answered
  NotFound whatever the claimant fields are; no claim row is added and an uploaded proof
  file is removed again.  Against any other item, with name, address and message non-empty
  once capped and trimmed, one claim row is added, for that item, with status
  \<^verbatim>\<open>'new'\<close>.
\<close>

theorem post_claim_outcomes:
  "(select_item (parseInt idp) w = None \<or>
    (\<exists>r. select_item (parseInt idp) w = Some r \<and> status r = ''archived'') \<longrightarrow>
      fst (post_claim idp body upl now w) = Inl NotFound \<and>
      claims (snd (post_claim idp body upl now w)) = claims w \<and>
      (\<forall>f. upl = Some f \<longrightarrow>
         f \<notin> uploads (snd (post_claim idp body upl now w)) \<and>
         trace (snd (post_claim idp body upl now w)) = trace w @ [FsUnlink f])) \<and>
   (\<forall>r. select_item (parseInt idp) w = Some r \<and> status r \<noteq> ''archived'' \<and>
        [] \<notin> set (required_claim_fields body) \<longrightarrow>
      (\<exists>c. fst (post_claim idp body upl now w) = Inr (claim_seq w + 1, ''new'') \<and>
           claims (snd (post_claim idp body upl now w)) = claims w @ [c] \<and>
           claim_id c = claim_seq w + 1 \<and> claim_item_id c = item_id r \<and>
           claim_status c = ''new'' \<and> proof_filename c = upl))"
proof (rule conjI; (rule allI)?; rule impI)
  assume "select_item (parseInt idp) w = None \<or>
          (\<exists>r. select_item (parseInt idp) w = Some r \<and> status r = ''archived'')"
  then have r: "post_claim idp body upl now w =
                (Inl NotFound, unlink_upload upl (upload_single upl w))"
    by (auto simp: post_claim_def Let_def)
  show "fst (post_claim idp body upl now w) = Inl NotFound \<and>
      claims (snd (post_claim idp body upl now w)) = claims w \<and>
      (\<forall>f. upl = Some f \<longrightarrow>
         f \<notin> uploads (snd (post_claim idp body upl now w)) \<and>
         trace (snd (post_claim idp body upl now w)) = trace w @ [FsUnlink f])"
    by (simp only: r) (cases upl; simp add: unlink_upload_def upload_single_def fs_unlink_def)
next
  fix r
  assume a: "select_item (parseInt idp) w = Some r \<and> status r \<noteq> ''archived'' \<and>
        [] \<notin> set (required_claim_fields body)"
  define c where "c = \<lparr>claim_id = claim_seq w + 1, claim_item_id = item_id r,
       claimant_name = sanitizeString (body_claimant_name body) 80,
       claimant_email = sanitizeString (body_claimant_email body) 120,
       student_id = sanitizeString (body_student_id body) 40,
       message = sanitizeString (body_message body) 1500, proof_filename = upl,
       claim_status = ''new'', claim_created_at = now\<rparr>"
  from a have "fst (post_claim idp body upl now w) = Inr (claim_seq w + 1, ''new'')"
    and "claims (snd (post_claim idp body upl now w)) = claims w @ [c]"
    by (auto simp: post_claim_def Let_def required_claim_fields_def insert_claim_def c_def)
  then show "\<exists>c. fst (post_claim idp body upl now w) = Inr (claim_seq w + 1, ''new'') \<and>
           claims (snd (post_claim idp body upl now w)) = claims w @ [c] \<and>
           claim_id c = claim_seq w + 1 \<and> claim_item_id c = item_id r \<and>
           claim_status c = ''new'' \<and> proof_filename c = upl"
    by (intro exI[of _ c]) (simp add: c_def)
qed

theorem post_claim_outcomes_witness:
  "select_item (parseInt ''9'') archived_world = None \<and>
   fst (post_claim ''9'' claim_form (Some ''u2.png'') ''2025-01-11 08:00:00'' archived_world) = Inl NotFound \<and>
   select_item (parseInt ''1'') archived_world = Some (sample_item 1 ''archived'' ''2025-01-10 09:00:00'') \<and>
   [] \<notin> set (required_claim_fields claim_form) \<and>
   fst (post_claim ''1'' claim_form (Some ''u2.png'') ''2025-01-11 08:00:00'' archived_world) = Inl NotFound \<and>
   claims (snd (post_claim ''1'' claim_form (Some ''u2.png'') ''2025-01-11 08:00:00'' archived_world)) = [] \<and>
   ''u2.png'' \<notin> uploads (snd (post_claim ''1'' claim_form (Some ''u2.png'') ''2025-01-11 08:00:00'' archived_world)) \<and>
   select_item (parseInt ''1'') claimed_world = Some (sample_item 1 ''approved'' ''2025-01-10 09:00:00'') \<and>
   fst (post_claim ''1'' claim_form None ''2025-01-11 08:00:00'' claimed_world) = Inr (3, ''new'') \<and>
   map claim_status (claims (snd (post_claim ''1'' claim_form None ''2025-01-11 08:00:00'' claimed_world))) =
     [''new'', ''new'', ''new'']"
proof -
  have s9: "select_item (parseInt ''9'') archived_world = None"
    and s1: "select_item (parseInt ''1'') archived_world = Some (sample_item 1 ''archived'' ''2025-01-10 09:00:00'')"
    and c1: "select_item (parseInt ''1'') claimed_world = Some (sample_item 1 ''approved'' ''2025-01-10 09:00:00'')"
    by (simp_all add: parseInt_samples select_item_def archived_world_def claimed_world_def
        empty_world_def sample_item_def)
  have f: "[] \<notin> set (required_claim_fields claim_form)"
    by (simp add: required_claim_fields_def claim_form_def sanitizeString_def trim_def is_ws_def)
  have st: "status (sample_item 1 ''archived'' ''2025-01-10 09:00:00'') = ''archived''"
    "status (sample_item 1 ''approved'' ''2025-01-10 09:00:00'') \<noteq> ''archived''"
    by (simp_all add: sample_item_def)
  have w: "claims archived_world = []" "claim_seq claimed_world = 2"
    "map claim_status (claims claimed_world) = [''new'', ''new'']"
    by (simp_all add: archived_world_def claimed_world_def empty_world_def sample_claim_def)
  from post_claim_outcomes[of "''9''" archived_world claim_form "Some ''u2.png''" "''2025-01-11 08:00:00''"] s9
  have a: "fst (post_claim ''9'' claim_form (Some ''u2.png'') ''2025-01-11 08:00:00'' archived_world) = Inl NotFound"
    by simp
  from post_claim_outcomes[of "''1''" archived_world claim_form "Some ''u2.png''" "''2025-01-11 08:00:00''"] s1 st
  have b: "fst (post_claim ''1'' claim_form (Some ''u2.png'') ''2025-01-11 08:00:00'' archived_world) = Inl NotFound \<and>
   claims (snd (post_claim ''1'' claim_form (Some ''u2.png'') ''2025-01-11 08:00:00'' archived_world)) = [] \<and>
   ''u2.png'' \<notin> uploads (snd (post_claim ''1'' claim_form (Some ''u2.png'') ''2025-01-11 08:00:00'' archived_world))"
    by (simp add: w)
  from post_claim_outcomes[of "''1''" claimed_world claim_form None "''2025-01-11 08:00:00''"] c1 st f
  have c: "fst (post_claim ''1'' claim_form None ''2025-01-11 08:00:00'' claimed_world) = Inr (3, ''new'') \<and>
   map claim_status (claims (snd (post_claim ''1'' claim_form None ''2025-01-11 08:00:00'' claimed_world))) =
     [''new'', ''new'', ''new'']"
    by (auto simp: w)
  from s9 s1 c1 f a b c show ?thesis by simp
qed

subsection \<open>Setting the status of a claim (C7)\<close>

lemma patch_claim_invalid_status:
  "isAdmin sess \<Longrightarrow> st \<notin> Some ` set valid_claim_status \<Longrightarrow>
   patch_claim sess idp st w = (Inl InvalidStatus, w)"
  by (cases st) (auto simp: patch_claim_def requireAdmin_def patch_claim_handler_def Let_def image_iff)

lemma find_claim_update:
  "find (\<lambda>c. claim_id c = n) (map (\<lambda>c. if claim_id c = n then c\<lparr>claim_status := s\<rparr> else c) cs) =
   map_option (\<lambda>c. c\<lparr>claim_status := s\<rparr>) (find (\<lambda>c. claim_id c = n) cs)"
  by (induction cs) simp_all

lemma patch_claim_sets_status:
  assumes "isAdmin sess" and "s \<in> set valid_claim_status"
    and "select_claim (parseInt idp) w = Some c"
  shows "fst (patch_claim sess idp (Some s) w) = Inr (Some (c\<lparr>claim_status := s\<rparr>))"
    and "select_claim (parseInt idp) (snd (patch_claim sess idp (Some s) w)) =
         Some (c\<lparr>claim_status := s\<rparr>)"
  using assms
  by (auto simp: patch_claim_def requireAdmin_def patch_claim_handler_def Let_def
      update_claim_status_def select_claim_def find_claim_update
      split: option.splits jsnum.splits)

lemma patch_claim_missing_row:
  assumes "isAdmin sess" and "s \<in> set valid_claim_status"
    and "select_claim (parseInt idp) w = None"
  shows "fst (patch_claim sess idp (Some s) w) = Inr None"
    and "claims (snd (patch_claim sess idp (Some s) w)) = claims w"
proof -
  have same: "map (\<lambda>c. if claim_id c = n then c\<lparr>claim_status := s\<rparr> else c) (claims w) = claims w"
    if "parseInt idp = Num n" for n
  proof (rule map_idI)
    fix c assume "c \<in> set (claims w)"
    with assms(3) that have "claim_id c \<noteq> n"
      by (auto simp: select_claim_def find_None_iff)
    then show "(if claim_id c = n then c\<lparr>claim_status := s\<rparr> else c) = c" by simp
  qed
  from assms same show "claims (snd (patch_claim sess idp (Some s) w)) = claims w"
    by (auto simp: patch_claim_def requireAdmin_def patch_claim_handler_def Let_def
        update_claim_status_def split: option.splits jsnum.splits)
  with assms show "fst (patch_claim sess idp (Some s) w) = Inr None"
    by (auto simp: patch_claim_def requireAdmin_def patch_claim_handler_def Let_def
        update_claim_status_def select_claim_def split: option.splits jsnum.splits)
qed

text \<open>
  Claim C7 fails on the code where it asks for NotFound: with an id that no claim has and
  a status of the list, the UPDATE changes nothing, the SELECT gives no row, and the
  handler answers with success and no claim.
\<close>

theorem patch_claim_unknown_id:
  "select_claim (parseInt ''7'') claimed_world = None \<and>
   fst (patch_claim admin_session ''7'' (Some ''approved'') claimed_world) = Inr None \<and>
   claims (snd (patch_claim admin_session ''7'' (Some ''approved'') claimed_world)) =
     claims claimed_world"
  by (simp add: patch_claim_def requireAdmin_def patch_claim_handler_def Let_def
      isAdmin_samples parseInt_samples valid_claim_status_def update_claim_status_def
      select_claim_def claimed_world_def empty_world_def sample_claim_def)

subsection \<open>Editing an item (C8)\<close>

lemma length_trim: "length (trim s) \<le> length s"
proof -
  have "length (dropWhile is_ws (rev (dropWhile is_ws s))) \<le> length (rev (dropWhile is_ws s))"
    by (rule length_dropWhile_le)
  also have "\<dots> = length (dropWhile is_ws s)" by simp
  also have "\<dots> \<le> length s" by (rule length_dropWhile_le)
  finally show ?thesis by (simp add: trim_def)
qed

lemma length_sanitizeString: "length (sanitizeString s mx) \<le> mx"
proof (cases s)
  case None
  then show ?thesis by (simp add: sanitizeString_def)
next
  case (Some v)
  have "length (trim (take mx v)) \<le> length (take mx v)" by (rule length_trim)
  then show ?thesis using Some by (simp add: sanitizeString_def)
qed

lemma edit_row_frame:
  "item_id (edit_row body r) = item_id r" "status (edit_row body r) = status r"
  "photo_filename (edit_row body r) = photo_filename r"
  "reporter_name (edit_row body r) = reporter_name r"
  "reporter_email (edit_row body r) = reporter_email r"
  "created_at (edit_row body r) = created_at r"
  by (simp_all add: edit_row_def)

lemma edit_row_caps:
  "length (title (edit_row body r)) \<le> 120" "length (description (edit_row body r)) \<le> 2000"
  "length (category (edit_row body r)) \<le> 60" "length (location_found (edit_row body r)) \<le> 120"
  "length (date_found (edit_row body r)) \<le> 10"
  by (simp_all add: edit_row_def length_sanitizeString)

lemma edit_touches_one_row:
  "items (update_item n (edit_row body) w) =
     map (\<lambda>x. if item_id x = n then edit_row body x else x) (items w) \<and>
   claims (update_item n (edit_row body) w) = claims w \<and>
   uploads (update_item n (edit_row body) w) = uploads w"
  by (simp add: update_item_def)

lemma edit_row_missing_title:
  "patch_title body = None \<or> patch_title body = Some [] \<Longrightarrow> title (edit_row body r) = []"
  by (auto simp: edit_row_def sanitizeString_def)

text \<open>
  Claim C8 fails on the code where it asks for validated, non-empty values: the edit
  branch writes whatever \<^verbatim>\<open>sanitizeString\<close> returns, so a body with the action alone
  overwrites all five fields with the empty string.
\<close>

theorem edit_without_fields_blanks_item:
  "select_item (parseInt ''2'') two_items = Some (sample_item 2 ''approved'' ''2025-01-10 09:00:05'') \<and>
   title (sample_item 2 ''approved'' ''2025-01-10 09:00:05'') = ''Blue Backpack'' \<and>
   fst (patch_item admin_session ''2'' (action_body ''edit'') two_items) =
     Inr (Some ((sample_item 2 ''approved'' ''2025-01-10 09:00:05'')
       \<lparr>title := [], description := [], category := [], location_found := [], date_found := []\<rparr>))"
  by (simp add: patch_item_def requireAdmin_def patch_item_handler_def Let_def isAdmin_samples
      parseInt_samples action_body_def edit_row_def sanitizeString_def select_item_def
      update_item_def two_items_def empty_world_def sample_item_def)

subsection \<open>Page and limit parameters (C9)\<close>

lemma list_items_nan:
  "pageNum (query_page qr) = NaN \<or> perPage (query_limit qr) = NaN \<Longrightarrow>
   list_items qr w = Inl InternalError"
  by (auto simp: list_items_def Let_def js_minus_def js_times_def sql_integer_def
      split: jsnum.splits)

lemma round_samples:
  "to_number 9007199254740993 = Num 9007199254740992"
  "to_number 1000000000000000000000 = Num 1000000000000000000000"
  "to_number 999999999999999999999 = Num 1000000000000000000000"
  "to_number 20000000000000000000000 = Num 20000000000000000000000"
  by code_simp+

lemma pageNum_rounds: "pageNum (Some ''9007199254740993'') = Num 9007199254740992"
  by (simp add: pageNum_def Math_max_def dflt_def parseInt_def is_ws_def digit_of_def
      round_samples)

lemma list_items_huge_page:
  "list_items (plain_query\<lparr>query_page := Some ''1000000000000000000000''\<rparr>) w =
     Inl InternalError"
proof -
  have "pageNum (Some ''1000000000000000000000'') = Num 1000000000000000000000"
    by (simp add: pageNum_def Math_max_def dflt_def parseInt_def is_ws_def digit_of_def
        round_samples)
  moreover have "js_times (js_minus (Num 1000000000000000000000) 1) (Num 20) =
                 Num 20000000000000000000000"
    by (simp add: js_minus_def js_times_def round_samples)
  ultimately show ?thesis
    by (simp add: list_items_def plain_query_def default_query_numeric sql_integer_def)
qed

text \<open>
  Claim C9 fails on the code for a parameter that is no number: \<^verbatim>\<open>parseInt\<close> gives
  \<^verbatim>\<open>NaN\<close>, \<^verbatim>\<open>Math.max\<close> and \<^verbatim>\<open>Math.min\<close> pass it on, and the request ends in the
  error answer, with no page and no limit.
\<close>

theorem list_items_nan_page:
  "pageNum (Some ''abc'') = NaN \<and> perPage (Some ''abc'') = NaN \<and>
   pageNum (Some []) = NaN \<and>
   list_items (plain_query\<lparr>query_page := Some ''abc''\<rparr>) three_approved = Inl InternalError \<and>
   list_items (plain_query\<lparr>query_limit := Some ''abc''\<rparr>) three_approved = Inl InternalError"
  by (simp add: list_items_def pageNum_def perPage_def Math_max_def Math_min_def dflt_def
      parseInt_samples plain_query_def js_minus_def js_times_def sql_integer_def)

subsection \<open>Listing with an empty status (C10)\<close>

text \<open>
  Claim C10.  With \<^verbatim>\<open>status\<close> given as the empty string the WHERE clause has no
  condition on the status: whether a row matches does not depend on its status, and a row
  matches exactly when it matches the same request made with the row's own status.
  Whenever the request is answered with a listing, the total counts all such rows; and it
  is answered with one, the page cut from those rows, when page and limit are numbers and
  the offset \<open>(page - 1) * limit\<close> is below \<open>2^53\<close>.  The handler is given no session,
  so this holds for every caller.
\<close>

theorem list_items_empty_status:
  "query_status qr = Some [] \<Longrightarrow>
   where_clause qr (r\<lparr>status := s\<rparr>) = where_clause qr r \<and>
   where_clause qr r = where_clause (qr\<lparr>query_status := Some (status r)\<rparr>) r \<and>
   (\<forall>resp. list_items qr w = Inr resp \<longrightarrow>
      resp_total resp = length (filter (where_clause qr) (items w))) \<and>
   (\<forall>pn pp. pageNum (query_page qr) = Num pn \<and> perPage (query_limit qr) = Num pp \<and>
        (pn - 1) * pp < 2 ^ 53 \<longrightarrow>
      (\<exists>resp. list_items qr w = Inr resp \<and>
         resp_total resp = length (filter (where_clause qr) (items w)) \<and>
         resp_items resp = map listing_of
           (take (nat pp) (drop (nat ((pn - 1) * pp)) (matching_rows qr w)))))"
proof -
  assume q: "query_status qr = Some []"
  have a: "where_clause qr (r\<lparr>status := s\<rparr>) = where_clause qr r"
    and b: "where_clause qr r = where_clause (qr\<lparr>query_status := Some (status r)\<rparr>) r"
    using q by (auto simp: where_clause_def dflt_def Let_def)
  have c: "resp_total resp = length (filter (where_clause qr) (items w))"
    if "list_items qr w = Inr resp" for resp
    using that by (auto simp: list_items_def Let_def split: option.splits jsnum.splits)
  have d: "\<exists>resp. list_items qr w = Inr resp \<and>
         resp_total resp = length (filter (where_clause qr) (items w)) \<and>
         resp_items resp = map listing_of
           (take (nat pp) (drop (nat ((pn - 1) * pp)) (matching_rows qr w)))"
    if "pageNum (query_page qr) = Num pn" "perPage (query_limit qr) = Num pp"
      "(pn - 1) * pp < 2 ^ 53" for pn pp
    using list_items_numeric[OF that, of w] by simp
  from a b c d show ?thesis by blast
qed

theorem list_items_empty_status_witness:
  "query_status open_query = Some [] \<and>
   pageNum (query_page open_query) = Num 1 \<and> perPage (query_limit open_query) = Num 20 \<and>
   ((1::int) - 1) * 20 < 2 ^ 53 \<and>
   (\<exists>resp. list_items open_query four_statuses = Inr resp \<and> resp_total resp = 4 \<and>
      map l_status (resp_items resp) = [''archived'', ''claimed'', ''approved'', ''pending''])"
proof -
  have q: "query_status open_query = Some []"
    and pl: "pageNum (query_page open_query) = Num 1" "perPage (query_limit open_query) = Num 20"
    by (simp_all add: open_query_def plain_query_def default_query_numeric)
  have small: "((1::int) - 1) * 20 < 2 ^ 53" by simp
  have len: "length (items four_statuses) = 4"
    by (simp add: four_statuses_def empty_world_def)
  from list_items_empty_status[OF q, of undefined undefined four_statuses] pl small
  obtain resp where "list_items open_query four_statuses = Inr resp"
    and "resp_total resp = length (filter (where_clause open_query) (items four_statuses))"
    and "resp_items resp = map listing_of
           (take (nat 20) (drop (nat ((1 - 1) * 20)) (matching_rows open_query four_statuses)))"
    by blast
  then have "list_items open_query four_statuses = Inr resp \<and> resp_total resp = 4 \<and>
      map l_status (resp_items resp) = [''archived'', ''claimed'', ''approved'', ''pending'']"
    by (simp add: four_statuses_rows len listing_of_def)
  with q pl small show ?thesis by auto
qed


end
